theory Spec2Isabelle
  imports Complex_Main "HOL-Library.Word"
begin

section \<open>Python strings and the label search\<close>

text \<open>
  A Python \<open>str\<close> is a sequence of Unicode code points, so it is modelled as a list of
  natural numbers. The literals of the program are written out code point by code point
  (they are in Vietnamese, in composed form, as in the source file).
\<close>

type_synonym pystr = "nat list"

definition pat_tong_cong_tai_san :: pystr where
  \<comment> \<open>line 55, first alternative: TONG CONG TAI SAN\<close>
  "pat_tong_cong_tai_san =
   [84, 7892, 78, 71, 32, 67, 7896, 78, 71, 32, 84, 192, 73, 32, 83, 7842, 78]"

definition pat_tong_tai_san :: pystr where
  \<comment> \<open>line 55, second alternative: TONG TAI SAN\<close>
  "pat_tong_tai_san =
   [84, 7892, 78, 71, 32, 84, 192, 73, 32, 83, 7842, 78]"

definition pat_tong_cong_nguon_von :: pystr where
  \<comment> \<open>line 56, first alternative: TONG CONG NGUON VON\<close>
  "pat_tong_cong_nguon_von =
   [84, 7892, 78, 71, 32, 67, 7896, 78, 71, 32, 78, 71, 85, 7890, 78, 32, 86, 7888, 78]"

definition pat_tong_nguon_von :: pystr where
  \<comment> \<open>line 56, second alternative: TONG NGUON VON\<close>
  "pat_tong_nguon_von =
   [84, 7892, 78, 71, 32, 78, 71, 85, 7890, 78, 32, 86, 7888, 78]"

definition pat_tai_san_ngan_han :: pystr where
  \<comment> \<open>line 88: TAI SAN NGAN HAN\<close>
  "pat_tai_san_ngan_han =
   [84, 192, 73, 32, 83, 7842, 78, 32, 78, 71, 7854, 78, 32, 72, 7840, 78]"

definition pat_no_ngan_han :: pystr where
  \<comment> \<open>line 89: NO NGAN HAN\<close>
  "pat_no_ngan_han =
   [78, 7906, 32, 78, 71, 7854, 78, 32, 72, 7840, 78]"

text \<open>
  \<open>Series.str.contains(pat, case=False, regex=True)\<close> compiles \<open>pat\<close> with
  \<open>re.IGNORECASE\<close> and searches every label. The patterns of the program contain no
  metacharacter but \<open>|\<close>, so each is a list of literal alternatives, and a label matches
  when one alternative occurs in it at some position, letter case ignored. Under
  \<open>re.IGNORECASE\<close> a character \<open>c\<close> of the label matches the pattern character \<open>p\<close>
  when the lower-case form of \<open>c\<close> is the lower-case form of \<open>p\<close> or one of its two
  recorded equivalents (dotless i for i, long s for s). \<open>py_lower\<close> is the lower-case
  map on the ranges that hold every character lowering to a character of the patterns
  (ASCII, Latin-1, capital I with dot, Latin Extended Additional) and the identity elsewhere.
\<close>

definition py_lower :: "nat \<Rightarrow> nat" where
  "py_lower c =
     (if 65 \<le> c \<and> c \<le> 90 then c + 32
      else if 192 \<le> c \<and> c \<le> 222 \<and> c \<noteq> 215 then c + 32
      else if c = 304 then 105
      else if 7840 \<le> c \<and> c \<le> 7935 \<and> even c then c + 1
      else c)"

definition ignorecase_literal :: "nat \<Rightarrow> nat \<Rightarrow> bool" where
  "ignorecase_literal p c =
     (let lo = py_lower p; lc = py_lower c
      in lc = lo \<or> (lo = 105 \<and> lc = 305) \<or> (lo = 115 \<and> lc = 383))"

fun match_here :: "pystr \<Rightarrow> pystr \<Rightarrow> bool" where
  "match_here [] cs = True"
| "match_here (p # ps) [] = False"
| "match_here (p # ps) (c # cs) = (ignorecase_literal p c \<and> match_here ps cs)"

fun re_search :: "pystr \<Rightarrow> pystr \<Rightarrow> bool" where
  "re_search pat [] = match_here pat []"
| "re_search pat (c # cs) = (match_here pat (c # cs) \<or> re_search pat cs)"

definition str_contains :: "pystr list \<Rightarrow> pystr \<Rightarrow> bool" where
  "str_contains alternatives label = list_ex (\<lambda>pat. re_search pat label) alternatives"

definition is_tong_tai_san :: "pystr \<Rightarrow> bool" where
  "is_tong_tai_san = str_contains [pat_tong_cong_tai_san, pat_tong_tai_san]"

definition is_tong_nguon_von :: "pystr \<Rightarrow> bool" where
  "is_tong_nguon_von = str_contains [pat_tong_cong_nguon_von, pat_tong_nguon_von]"

definition is_tai_san_ngan_han :: "pystr \<Rightarrow> bool" where
  "is_tai_san_ngan_han = str_contains [pat_tai_san_ngan_han]"

definition is_no_ngan_han :: "pystr \<Rightarrow> bool" where
  "is_no_ngan_han = str_contains [pat_no_ngan_han]"

section \<open>Numbers\<close>

text \<open>
  The numbers of a data frame are 64-bit: a column that holds whole numbers only has the
  dtype int64, any other numeric column float64. An int64 is a 64-bit word read as a
  signed number, and its arithmetic wraps around without notice. A finite float is a real
  number: rounding to the nearest float is left out, overflow is not. An operation of
  \<open>process_financial_data\<close> on floats whose exact result reaches the overflow threshold
  gives an infinity, and a division by zero gives an infinity or NaN, it does not raise.
  So the derived columns hold an \<open>npfloat\<close>.
\<close>

type_synonym int64 = "64 word"

datatype npfloat = Fin real | PInf | NInf | NaN

definition float_overflow :: real where
  \<comment> \<open>the least magnitude that rounds to an infinity\<close>
  "float_overflow = 2 ^ 1024 - 2 ^ 970"

definition fl :: "real \<Rightarrow> npfloat" where
  \<comment> \<open>the float that an operation with the exact result \<open>x\<close> returns\<close>
  "fl x =
     (if float_overflow \<le> x then PInf
      else if x \<le> - float_overflow then NInf
      else Fin x)"

fun np_div :: "npfloat \<Rightarrow> real \<Rightarrow> npfloat" where
  \<comment> \<open>true division by a finite float\<close>
  "np_div (Fin x) y =
     (if y \<noteq> 0 then fl (x / y)
      else if 0 < x then PInf else if x < 0 then NInf else NaN)"
| "np_div PInf y = (if 0 \<le> y then PInf else NInf)"
| "np_div NInf y = (if 0 \<le> y then NInf else PInf)"
| "np_div NaN y = NaN"

fun np_mul :: "npfloat \<Rightarrow> real \<Rightarrow> npfloat" where
  "np_mul (Fin x) k = fl (x * k)"
| "np_mul PInf k = (if 0 < k then PInf else if k < 0 then NInf else NaN)"
| "np_mul NInf k = (if 0 < k then NInf else if k < 0 then PInf else NaN)"
| "np_mul NaN k = NaN"

text \<open>
  The sum of a column of percentages, as a number: this is the sum that a property of the
  percentages speaks of, not an operation of the program, and it is exact.
\<close>

fun np_add :: "npfloat \<Rightarrow> npfloat \<Rightarrow> npfloat" where
  "np_add (Fin x) (Fin y) = Fin (x + y)"
| "np_add NaN y = NaN"
| "np_add x NaN = NaN"
| "np_add PInf NInf = NaN"
| "np_add NInf PInf = NaN"
| "np_add PInf y = PInf"
| "np_add x PInf = PInf"
| "np_add NInf y = NInf"
| "np_add x NInf = NInf"

fun np_sum :: "npfloat list \<Rightarrow> npfloat" where
  "np_sum [] = Fin 0"
| "np_sum (x # xs) = np_add x (np_sum xs)"

definition epsilon :: real where
  \<comment> \<open>the literal \<open>1e-9\<close> of lines 49 and 63 to 68\<close>
  "epsilon = 1 / 10 ^ 9"

section \<open>The uploaded table\<close>

text \<open>
  The table read from the spreadsheet has three columns (line 39 names them; any other
  width makes that assignment raise, outside this model). A label is a text, as in the
  data model of the specification; the argument \<open>na=False\<close> of the searches, which makes
  an empty label match nothing, has no case here, and a label column that holds no text
  at all is outside this model. A value cell is what \<open>pd.to_numeric\<close> makes of it:
  \<open>Whole w\<close> is a cell read as the whole number \<open>w\<close> (a whole number of the sheet, or a text
  that parses as one), \<open>Num r\<close> is a cell read as the float \<open>r\<close> (any other number, or a text
  that parses as one), \<open>NonNumeric s\<close> is a text that does not parse, \<open>Blank\<close> an empty cell.
  The values of a table are finite: a whole number beyond the range of int64 and a cell
  read as an infinity (the text \<open>inf\<close>) are outside this model.
\<close>

datatype cell = Whole int64 | Num real | NonNumeric pystr | Blank

record raw_row =
  label_cell :: pystr
  truoc_cell :: cell
  sau_cell :: cell

text \<open>
  \<open>pd.to_numeric(..., errors='coerce')\<close> gives NaN (here \<open>None\<close>) where it cannot read a
  number, and \<open>fillna(0)\<close> replaces each NaN. \<open>coerce\<close> is the value of the entry after
  line 44, as a number.
\<close>

fun to_numeric :: "cell \<Rightarrow> real option" where
  "to_numeric (Whole w) = Some (real_of_int (sint w))"
| "to_numeric (Num r) = Some r"
| "to_numeric (NonNumeric s) = None"
| "to_numeric Blank = None"

fun fillna :: "real \<Rightarrow> real option \<Rightarrow> real" where
  "fillna v None = v"
| "fillna v (Some r) = r"

definition coerce :: "cell \<Rightarrow> real" where
  \<comment> \<open>line 44, on one entry\<close>
  "coerce c = fillna 0 (to_numeric c)"

text \<open>
  The dtype of a column after line 44 is int64 when every cell of the column is a whole
  number, and float64 otherwise (a NaN, filled or not, makes the column float64, and so
  does one float). An entry of the column carries that dtype.
\<close>

fun is_whole :: "cell \<Rightarrow> bool" where
  "is_whole (Whole w) = True"
| "is_whole c = False"

definition int64_col :: "cell list \<Rightarrow> bool" where
  "int64_col cells = list_all is_whole cells"

datatype entry = I64 int64 | F64 real

fun entry_value :: "entry \<Rightarrow> real" where
  "entry_value (I64 w) = real_of_int (sint w)"
| "entry_value (F64 r) = r"

fun to_entry :: "bool \<Rightarrow> cell \<Rightarrow> entry" where
  \<comment> \<open>line 44, on one entry of a column that is int64 (\<open>True\<close>) or float64\<close>
  "to_entry True (Whole w) = I64 w"
| "to_entry is_int64 c = F64 (coerce c)"

record num_row =
  nr_chi_tieu :: pystr
  nr_nam_truoc :: entry
  nr_nam_sau :: entry

definition numeric_cols :: "bool \<Rightarrow> bool \<Rightarrow> raw_row \<Rightarrow> num_row" where
  \<comment> \<open>lines 42 to 44, on one row, from the dtypes of the two columns\<close>
  "numeric_cols truoc_int64 sau_int64 r =
     \<lparr>nr_chi_tieu = label_cell r,
      nr_nam_truoc = to_entry truoc_int64 (truoc_cell r),
      nr_nam_sau = to_entry sau_int64 (sau_cell r)\<rparr>"

section \<open>process_financial_data\<close>

text \<open>
  A row of the processed frame. Its fields are the six columns, in the order of the
  source: the label, the year before, the year after, the growth in percent, and the
  share of the total of assets in percent for the year before and for the year after.
  The two years are kept as the numbers they are, whatever the dtype.
\<close>

record row =
  chi_tieu :: pystr
  nam_truoc :: real
  nam_sau :: real
  tang_truong :: npfloat
  ty_trong_nam_truoc :: npfloat
  ty_trong_nam_sau :: npfloat

definition replace_zero :: "real \<Rightarrow> real \<Rightarrow> real" where
  \<comment> \<open>\<open>Series.replace(0, v)\<close> on one entry; the result is used as a float divisor\<close>
  "replace_zero v x = (if x = 0 then v else x)"

definition py_or :: "real \<Rightarrow> real \<Rightarrow> real" where
  \<comment> \<open>\<open>x or v\<close> on a number: a zero is falsy\<close>
  "py_or x v = (if x = 0 then v else x)"

text \<open>
  The difference of line 49 is taken in int64, with wrap-around, when both columns are
  int64, and in float64 otherwise; the product by 100 of lines 71 and 72 is taken in the
  dtype of the column. Each is then the dividend of a true division, which is a float
  division. The product by 100 of line 50 is a float product.
\<close>

fun series_sub :: "entry \<Rightarrow> entry \<Rightarrow> npfloat" where
  "series_sub (I64 a) (I64 b) = Fin (real_of_int (sint (a - b)))"
| "series_sub x y = fl (entry_value x - entry_value y)"

fun times_100 :: "entry \<Rightarrow> npfloat" where
  "times_100 (I64 a) = Fin (real_of_int (sint (100 * a)))"
| "times_100 (F64 r) = fl (100 * r)"

definition growth_pct :: "entry \<Rightarrow> entry \<Rightarrow> npfloat" where
  \<comment> \<open>lines 48 to 50, on one row\<close>
  "growth_pct truoc sau =
     np_mul (np_div (series_sub sau truoc) (replace_zero epsilon (entry_value truoc))) 100"

definition share_pct :: "entry \<Rightarrow> real \<Rightarrow> npfloat" where
  \<comment> \<open>lines 71 and 72, on one row\<close>
  "share_pct v denom = np_div (times_100 v) denom"

definition msg_missing_totals :: pystr where
  \<comment> \<open>line 59: Loi: Khong tim thay dong Tong cong tai san hoac Tong c...\<close>
  "msg_missing_totals =
   [76, 7895, 105, 58, 32, 75, 104, 244, 110, 103, 32, 116, 236, 109, 32, 116, 104, 7845,
    121, 32, 100, 242, 110, 103, 32, 39, 84, 7893, 110, 103, 32, 99, 7897, 110, 103, 32,
    116, 224, 105, 32, 115, 7843, 110, 39, 32, 104, 111, 7863, 99, 32, 39, 84, 7893, 110,
    103, 32, 99, 7897, 110, 103, 32, 110, 103, 117, 7891, 110, 32, 118, 7889, 110, 39, 32,
    116, 114, 111, 110, 103, 32, 102, 105, 108, 101, 46, 32, 86, 117, 105, 32, 108, 242,
    110, 103, 32, 107, 105, 7875, 109, 32, 116, 114, 97, 32, 108, 7841, 105, 32, 99, 7845,
    117, 32, 116, 114, 250, 99, 32, 102, 105, 108, 101, 32, 69, 120, 99, 101, 108, 46]"

text \<open>
  The dictionary \<open>ratios\<close> has two fixed keys, the current ratio of the year before
  and of the year after; a value is the text \<open>'N/A'\<close> or a number.
\<close>

datatype pyval = PyStr pystr | PyFloat real

definition na_str :: pystr where
  \<comment> \<open>lines 83 and 84: N/A\<close>
  "na_str =
   [78, 47, 65]"

record ratios =
  thanh_toan_hien_hanh_nam_truoc :: pyval
  thanh_toan_hien_hanh_nam_sau :: pyval

text \<open>
  What a run shows and calls is kept as a list of steps, in order: an error or a warning
  with its text, the heading and the table of lines 186 and 187, the ratios that line 200
  obtained, the divider and the heading of lines 203 and 204, the configuration of the
  client with a key (line 121), a request to the endpoint with its prompt (line 147), and
  the report of lines 218 to 269 with the narrative it renders. The result of
  \<open>process_financial_data\<close> is the frame or \<open>None\<close>, with the steps it made. The growth
  column of lines 48 to 50 is computed for every row before the anchor rows are looked for;
  it is a function of the row's own two entries, and is put into the row where the row is
  assembled. The two totals of lines 67 and 68 are computed and never used.
\<close>

datatype step =
    StError pystr
  | StWarning pystr
  | StSubheaderTable
  | StDataframe "row list"
  | RatiosCalculated ratios
  | StDivider
  | StSubheaderAI
  | GenaiConfigure pystr
  | GenerateContent pystr
  | StReport pystr

definition assemble :: "real \<Rightarrow> real \<Rightarrow> num_row \<Rightarrow> row" where
  "assemble tong_tai_san_truoc tong_tai_san_sau r =
     \<lparr>chi_tieu = nr_chi_tieu r,
      nam_truoc = entry_value (nr_nam_truoc r),
      nam_sau = entry_value (nr_nam_sau r),
      tang_truong = growth_pct (nr_nam_truoc r) (nr_nam_sau r),
      ty_trong_nam_truoc = share_pct (nr_nam_truoc r) tong_tai_san_truoc,
      ty_trong_nam_sau = share_pct (nr_nam_sau r) tong_tai_san_sau\<rparr>"

definition process_financial_data :: "raw_row list \<Rightarrow> row list option \<times> step list" where
  "process_financial_data df_raw =
     (let truoc_int64 = int64_col (map truoc_cell df_raw);
          sau_int64 = int64_col (map sau_cell df_raw);
          df = map (numeric_cols truoc_int64 sau_int64) df_raw;
          tong_tai_san_row = filter (\<lambda>r. is_tong_tai_san (nr_chi_tieu r)) df;
          tong_nguon_von_row = filter (\<lambda>r. is_tong_nguon_von (nr_chi_tieu r)) df
      in case (tong_tai_san_row, tong_nguon_von_row) of
           (a # _, b # _) \<Rightarrow>
             (let tong_tai_san_truoc = py_or (entry_value (nr_nam_truoc a)) epsilon;
                  tong_tai_san_sau = py_or (entry_value (nr_nam_sau a)) epsilon;
                  tong_nguon_von_truoc = py_or (entry_value (nr_nam_truoc b)) epsilon;
                  tong_nguon_von_sau = py_or (entry_value (nr_nam_sau b)) epsilon
              in (Some (map (assemble tong_tai_san_truoc tong_tai_san_sau) df), []))
         | _ \<Rightarrow> (None, [StError msg_missing_totals]))"

section \<open>calculate_financial_ratios\<close>

definition msg_missing_short_term :: pystr where
  \<comment> \<open>line 92: Canh bao: Thieu chi tieu Tai san ngan han hoac No n...\<close>
  "msg_missing_short_term =
   [9888, 65039, 32, 67, 7843, 110, 104, 32, 98, 225, 111, 58, 32, 84, 104, 105, 7871, 117,
    32, 99, 104, 7881, 32, 116, 105, 234, 117, 32, 39, 84, 224, 105, 32, 115, 7843, 110,
    32, 110, 103, 7855, 110, 32, 104, 7841, 110, 39, 32, 104, 111, 7863, 99, 32, 39, 78,
    7907, 32, 110, 103, 7855, 110, 32, 104, 7841, 110, 39, 32, 273, 7875, 32, 116, 237,
    110, 104, 32, 116, 111, 225, 110, 32, 273, 7847, 121, 32, 273, 7911, 32, 99, 225, 99,
    32, 99, 104, 7881, 32, 115, 7889, 46]"

text \<open>
  The body is inside \<open>try\<close>. On a frame of this type nothing in it raises (the two
  \<open>iloc[0]\<close> are reached only when both selections are non-empty, and each division is
  guarded), so the handlers of lines 105 to 108 have no branch here. Each ratio is one
  true division of two values of the frame, kept as the number it is.
\<close>

definition current_ratio :: "real \<Rightarrow> real \<Rightarrow> pyval" where
  \<comment> \<open>lines 102 and 103: \<open>tsnh / no_nh if no_nh != 0 else 0\<close>\<close>
  "current_ratio tsnh no_nh = (if no_nh \<noteq> 0 then PyFloat (tsnh / no_nh) else PyFloat 0)"

definition calculate_financial_ratios :: "row list \<Rightarrow> ratios \<times> step list" where
  "calculate_financial_ratios df =
     (let ratios = \<lparr>thanh_toan_hien_hanh_nam_truoc = PyStr na_str,
                     thanh_toan_hien_hanh_nam_sau = PyStr na_str\<rparr>;
          tsnh_row = filter (\<lambda>r. is_tai_san_ngan_han (chi_tieu r)) df;
          no_nh_row = filter (\<lambda>r. is_no_ngan_han (chi_tieu r)) df
      in case (tsnh_row, no_nh_row) of
           (a # _, b # _) \<Rightarrow>
             (ratios\<lparr>thanh_toan_hien_hanh_nam_truoc := current_ratio (nam_truoc a) (nam_truoc b),
                     thanh_toan_hien_hanh_nam_sau := current_ratio (nam_sau a) (nam_sau b)\<rparr>, [])
         | _ \<Rightarrow> (ratios, [StWarning msg_missing_short_term]))"

section \<open>get_ai_analysis\<close>

text \<open>
  What the program takes from its libraries is a parameter: the text of a table
  (\<open>DataFrame.to_markdown\<close>), the text of a number under the format \<open>.2f\<close>, and the
  answer of the endpoint to a key and a prompt, which is the text of the response or an
  exception. \<open>genai.configure\<close> and the constructor of the model only record their
  arguments; the one contact with the endpoint is \<open>generate_content\<close>.
\<close>

datatype exn = ValueError pystr | InvalidArgument pystr | OtherException pystr

fun exn_text :: "exn \<Rightarrow> pystr" where
  "exn_text (ValueError s) = s"
| "exn_text (InvalidArgument s) = s"
| "exn_text (OtherException s) = s"

record library =
  to_markdown :: "(pystr \<times> real \<times> real \<times> npfloat \<times> npfloat) list \<Rightarrow> pystr"
  format_2f :: "real \<Rightarrow> pystr"
  generate_content :: "pystr \<Rightarrow> pystr \<Rightarrow> exn + pystr"

definition value_error_text :: pystr where
  \<comment> \<open>text of the ValueError: Unknown format code f for object of type str\<close>
  "value_error_text =
   [85, 110, 107, 110, 111, 119, 110, 32, 102, 111, 114, 109, 97, 116, 32, 99, 111, 100,
    101, 32, 39, 102, 39, 32, 102, 111, 114, 32, 111, 98, 106, 101, 99, 116, 32, 111, 102,
    32, 116, 121, 112, 101, 32, 39, 115, 116, 114, 39]"

definition prompt_head :: pystr where
  \<comment> \<open>lines 125 to 137, up to the table: Voi vai tro la mot chuyen gia phan tich tai chinh cap cao...\<close>
  "prompt_head =
   [10, 32, 32, 32, 32, 32, 32, 32, 32, 86, 7899, 105, 32, 118, 97, 105, 32, 116, 114, 242,
    32, 108, 224, 32, 109, 7897, 116, 32, 99, 104, 117, 121, 234, 110, 32, 103, 105, 97,
    32, 112, 104, 226, 110, 32, 116, 237, 99, 104, 32, 116, 224, 105, 32, 99, 104, 237,
    110, 104, 32, 99, 7845, 112, 32, 99, 97, 111, 44, 32, 104, 227, 121, 32, 100, 7921, 97,
    32, 118, 224, 111, 32, 99, 225, 99, 32, 100, 7919, 32, 108, 105, 7879, 117, 32, 115,
    97, 117, 32, 273, 226, 121, 32, 273, 7875, 32, 273, 432, 97, 32, 114, 97, 32, 109,
    7897, 116, 32, 98, 7843, 110, 32, 112, 104, 226, 110, 32, 116, 237, 99, 104, 32, 99,
    104, 105, 32, 116, 105, 7871, 116, 32, 118, 7873, 32, 116, 236, 110, 104, 32, 104, 236,
    110, 104, 32, 116, 224, 105, 32, 99, 104, 237, 110, 104, 32, 99, 7911, 97, 32, 100,
    111, 97, 110, 104, 32, 110, 103, 104, 105, 7879, 112, 46, 10, 10, 32, 32, 32, 32, 32,
    32, 32, 32, 66, 7843, 110, 32, 112, 104, 226, 110, 32, 116, 237, 99, 104, 32, 99, 7847,
    110, 32, 99, 243, 32, 99, 7845, 117, 32, 116, 114, 250, 99, 32, 114, 245, 32, 114, 224,
    110, 103, 44, 32, 99, 104, 117, 121, 234, 110, 32, 110, 103, 104, 105, 7879, 112, 32,
    118, 224, 32, 100, 7877, 32, 104, 105, 7875, 117, 44, 32, 98, 97, 111, 32, 103, 7891,
    109, 32, 99, 225, 99, 32, 112, 104, 7847, 110, 32, 115, 97, 117, 58, 10, 32, 32, 32,
    32, 32, 32, 32, 32, 49, 46, 32, 32, 42, 42, 272, 225, 110, 104, 32, 103, 105, 225, 32,
    116, 7893, 110, 103, 32, 113, 117, 97, 110, 58, 42, 42, 32, 78, 104, 7853, 110, 32,
    120, 233, 116, 32, 99, 104, 117, 110, 103, 32, 118, 7873, 32, 115, 7913, 99, 32, 107,
    104, 7887, 101, 32, 116, 224, 105, 32, 99, 104, 237, 110, 104, 32, 99, 7911, 97, 32,
    100, 111, 97, 110, 104, 32, 110, 103, 104, 105, 7879, 112, 32, 116, 114, 111, 110, 103,
    32, 107, 7923, 32, 112, 104, 226, 110, 32, 116, 237, 99, 104, 46, 10, 32, 32, 32, 32,
    32, 32, 32, 32, 50, 46, 32, 32, 42, 42, 80, 104, 226, 110, 32, 116, 237, 99, 104, 32,
    118, 7873, 32, 113, 117, 121, 32, 109, 244, 32, 118, 224, 32, 116, 259, 110, 103, 32,
    116, 114, 432, 7903, 110, 103, 58, 42, 42, 32, 68, 7921, 97, 32, 118, 224, 111, 32,
    115, 7921, 32, 98, 105, 7871, 110, 32, 273, 7897, 110, 103, 32, 99, 7911, 97, 32, 84,
    7893, 110, 103, 32, 116, 224, 105, 32, 115, 7843, 110, 44, 32, 68, 111, 97, 110, 104,
    32, 116, 104, 117, 44, 32, 118, 224, 32, 76, 7907, 105, 32, 110, 104, 117, 7853, 110,
    46, 10, 32, 32, 32, 32, 32, 32, 32, 32, 51, 46, 32, 32, 42, 42, 80, 104, 226, 110, 32,
    116, 237, 99, 104, 32, 118, 7873, 32, 99, 417, 32, 99, 7845, 117, 32, 116, 224, 105,
    32, 115, 7843, 110, 32, 118, 224, 32, 110, 103, 117, 7891, 110, 32, 118, 7889, 110, 58,
    42, 42, 32, 78, 104, 7853, 110, 32, 120, 233, 116, 32, 118, 7873, 32, 115, 7921, 32,
    116, 104, 97, 121, 32, 273, 7893, 105, 32, 116, 114, 111, 110, 103, 32, 116, 7927, 32,
    116, 114, 7885, 110, 103, 32, 99, 225, 99, 32, 107, 104, 111, 7843, 110, 32, 109, 7909,
    99, 32, 99, 104, 237, 110, 104, 32, 40, 86, 68, 58, 32, 116, 224, 105, 32, 115, 7843,
    110, 32, 110, 103, 7855, 110, 32, 104, 7841, 110, 44, 32, 110, 7907, 32, 112, 104,
    7843, 105, 32, 116, 114, 7843, 41, 46, 10, 32, 32, 32, 32, 32, 32, 32, 32, 52, 46, 32,
    32, 42, 42, 80, 104, 226, 110, 32, 116, 237, 99, 104, 32, 118, 7873, 32, 107, 104,
    7843, 32, 110, 259, 110, 103, 32, 116, 104, 97, 110, 104, 32, 116, 111, 225, 110, 58,
    42, 42, 32, 68, 7921, 97, 32, 118, 224, 111, 32, 99, 225, 99, 32, 99, 104, 7881, 32,
    115, 7889, 32, 116, 104, 97, 110, 104, 32, 116, 111, 225, 110, 32, 273, 227, 32, 273,
    432, 7907, 99, 32, 116, 237, 110, 104, 32, 116, 111, 225, 110, 46, 10, 32, 32, 32, 32,
    32, 32, 32, 32, 53, 46, 32, 32, 42, 42, 75, 7871, 116, 32, 108, 117, 7853, 110, 32,
    118, 224, 32, 273, 7873, 32, 120, 117, 7845, 116, 32, 40, 110, 7871, 117, 32, 99, 243,
    41, 58, 42, 42, 32, 84, 243, 109, 32, 116, 7855, 116, 32, 110, 104, 7919, 110, 103, 32,
    273, 105, 7875, 109, 32, 109, 7841, 110, 104, 44, 32, 273, 105, 7875, 109, 32, 121,
    7871, 117, 32, 118, 224, 32, 273, 432, 97, 32, 114, 97, 32, 109, 7897, 116, 32, 118,
    224, 105, 32, 103, 7907, 105, 32, 253, 46, 10, 10, 32, 32, 32, 32, 32, 32, 32, 32, 42,
    42, 68, 7918, 32, 76, 73, 7878, 85, 32, 272, 7846, 85, 32, 86, 192, 79, 58, 42, 42, 10,
    10, 32, 32, 32, 32, 32, 32, 32, 32, 42, 42, 49, 46, 32, 66, 7843, 110, 103, 32, 112,
    104, 226, 110, 32, 116, 237, 99, 104, 32, 116, 259, 110, 103, 32, 116, 114, 432, 7903,
    110, 103, 32, 118, 224, 32, 116, 7927, 32, 116, 114, 7885, 110, 103, 58, 42, 42, 10,
    32, 32, 32, 32, 32, 32, 32, 32]"

definition prompt_ratio_truoc :: pystr where
  \<comment> \<open>lines 139 to 141, up to the first ratio: **2. Cac chi so tai chinh quan trong:** - He so thanh toa...\<close>
  "prompt_ratio_truoc =
   [10, 10, 32, 32, 32, 32, 32, 32, 32, 32, 42, 42, 50, 46, 32, 67, 225, 99, 32, 99, 104,
    7881, 32, 115, 7889, 32, 116, 224, 105, 32, 99, 104, 237, 110, 104, 32, 113, 117, 97,
    110, 32, 116, 114, 7885, 110, 103, 58, 42, 42, 10, 32, 32, 32, 32, 32, 32, 32, 32, 45,
    32, 72, 7879, 32, 115, 7889, 32, 116, 104, 97, 110, 104, 32, 116, 111, 225, 110, 32,
    104, 105, 7879, 110, 32, 104, 224, 110, 104, 32, 110, 259, 109, 32, 116, 114, 432,
    7899, 99, 58, 32]"

definition prompt_ratio_sau :: pystr where
  \<comment> \<open>line 142, up to the second ratio: - He so thanh toan hien hanh nam sau:\<close>
  "prompt_ratio_sau =
   [10, 32, 32, 32, 32, 32, 32, 32, 32, 45, 32, 72, 7879, 32, 115, 7889, 32, 116, 104, 97,
    110, 104, 32, 116, 111, 225, 110, 32, 104, 105, 7879, 110, 32, 104, 224, 110, 104, 32,
    110, 259, 109, 32, 115, 97, 117, 58, 32]"

definition prompt_tail :: pystr where
  \<comment> \<open>lines 143 to 145, after the second ratio: Hay trinh bay ket qua phan tich mot cach mach lac, su dun...\<close>
  "prompt_tail =
   [10, 10, 32, 32, 32, 32, 32, 32, 32, 32, 72, 227, 121, 32, 116, 114, 236, 110, 104, 32,
    98, 224, 121, 32, 107, 7871, 116, 32, 113, 117, 7843, 32, 112, 104, 226, 110, 32, 116,
    237, 99, 104, 32, 109, 7897, 116, 32, 99, 225, 99, 104, 32, 109, 7841, 99, 104, 32,
    108, 7841, 99, 44, 32, 115, 7917, 32, 100, 7909, 110, 103, 32, 99, 225, 99, 32, 116,
    104, 117, 7853, 116, 32, 110, 103, 7919, 32, 116, 224, 105, 32, 99, 104, 237, 110, 104,
    32, 99, 104, 237, 110, 104, 32, 120, 225, 99, 46, 10, 32, 32, 32, 32, 32, 32, 32, 32]"

definition msg_invalid_key :: pystr where
  \<comment> \<open>line 151: Loi API Key: API Key cua Sep khong hop le hoac da het h...\<close>
  "msg_invalid_key =
   [10060, 32, 76, 7895, 105, 32, 65, 80, 73, 32, 75, 101, 121, 58, 32, 65, 80, 73, 32, 75,
    101, 121, 32, 99, 7911, 97, 32, 83, 7871, 112, 32, 107, 104, 244, 110, 103, 32, 104,
    7907, 112, 32, 108, 7879, 32, 104, 111, 7863, 99, 32, 273, 227, 32, 104, 7871, 116, 32,
    104, 7841, 110, 46, 32, 86, 117, 105, 32, 108, 242, 110, 103, 32, 107, 105, 7875, 109,
    32, 116, 114, 97, 32, 108, 7841, 105, 32, 116, 114, 111, 110, 103, 32, 112, 104, 7847,
    110, 32, 83, 101, 99, 114, 101, 116, 115, 32, 99, 7911, 97, 32, 83, 116, 114, 101, 97,
    109, 108, 105, 116, 46]"

definition msg_gemini_prefix :: pystr where
  \<comment> \<open>line 154, before the exception text: Da co loi xay ra khi ket noi den Gemini AI:\<close>
  "msg_gemini_prefix =
   [9888, 65039, 32, 272, 227, 32, 99, 243, 32, 108, 7895, 105, 32, 120, 7843, 121, 32,
    114, 97, 32, 107, 104, 105, 32, 107, 7871, 116, 32, 110, 7889, 105, 32, 273, 7871, 110,
    32, 71, 101, 109, 105, 110, 105, 32, 65, 73, 58, 32]"

definition py_format :: "library \<Rightarrow> pyval \<Rightarrow> exn + pystr" where
  \<comment> \<open>\<open>f"{v:.2f}"\<close>: a number is formatted, a \<open>str\<close> raises\<close>
  "py_format lib v =
     (case v of PyFloat r \<Rightarrow> Inr (format_2f lib r)
              | PyStr s \<Rightarrow> Inl (ValueError value_error_text))"

definition selected_columns :: "row \<Rightarrow> pystr \<times> real \<times> real \<times> npfloat \<times> npfloat" where
  \<comment> \<open>the five columns of line 138\<close>
  "selected_columns r = (chi_tieu r, nam_truoc r, nam_sau r, tang_truong r, ty_trong_nam_sau r)"

definition build_prompt :: "library \<Rightarrow> row list \<Rightarrow> ratios \<Rightarrow> exn + pystr" where
  \<comment> \<open>lines 125 to 145: the fields of the f-string are evaluated from left to right\<close>
  "build_prompt lib data_df ratios =
     (let table = to_markdown lib (map selected_columns data_df)
      in case py_format lib (thanh_toan_hien_hanh_nam_truoc ratios) of
           Inl e \<Rightarrow> Inl e
         | Inr truoc \<Rightarrow>
             (case py_format lib (thanh_toan_hien_hanh_nam_sau ratios) of
                Inl e \<Rightarrow> Inl e
              | Inr sau \<Rightarrow>
                  Inr (prompt_head @ table @ prompt_ratio_truoc @ truoc
                       @ prompt_ratio_sau @ sau @ prompt_tail)))"

fun handlers :: "exn \<Rightarrow> step list" where
  \<comment> \<open>lines 150 to 155; each is followed by \<open>return None\<close>\<close>
  "handlers (InvalidArgument s) = [StError msg_invalid_key]"
| "handlers e = [StError (msg_gemini_prefix @ exn_text e)]"

definition get_ai_analysis ::
  "library \<Rightarrow> row list \<Rightarrow> ratios \<Rightarrow> pystr \<Rightarrow> pystr option \<times> step list" where
  "get_ai_analysis lib data_df ratios api_key =
     (case build_prompt lib data_df ratios of
        Inl e \<Rightarrow> (None, GenaiConfigure api_key # handlers e)
      | Inr prompt \<Rightarrow>
          (case generate_content lib api_key prompt of
             Inr text \<Rightarrow> (Some text, [GenaiConfigure api_key, GenerateContent prompt])
           | Inl e \<Rightarrow>
               (None, [GenaiConfigure api_key, GenerateContent prompt] @ handlers e)))"

section \<open>The run on an uploaded file\<close>

text \<open>
  Lines 178 to 275, from the frame that \<open>pd.read_excel\<close> returned. The secret and the
  button are inputs of the run. The dashboard, the narrative and the charts of lines
  218 to 269 are presentation and are one step here, \<open>StReport\<close>; what goes on inside
  them is not modelled. Up to there nothing raises in this model, so the two handlers of
  lines 272 to 275 have no branch. The decorators of lines 30 and 76 memoise the two
  functions and do not change what they return.
\<close>

definition msg_no_api_key :: pystr where
  \<comment> \<open>line 211: Sep oi, chua co GEMINI_API_KEY trong phan Secrets cua S...\<close>
  "msg_no_api_key =
   [83, 7871, 112, 32, 417, 105, 44, 32, 99, 104, 432, 97, 32, 99, 243, 32, 39, 71, 69, 77,
    73, 78, 73, 95, 65, 80, 73, 95, 75, 69, 89, 39, 32, 116, 114, 111, 110, 103, 32, 112,
    104, 7847, 110, 32, 83, 101, 99, 114, 101, 116, 115, 32, 99, 7911, 97, 32, 83, 116,
    114, 101, 97, 109, 108, 105, 116, 46, 32, 69, 109, 32, 107, 104, 244, 110, 103, 32,
    116, 104, 7875, 32, 107, 7871, 116, 32, 110, 7889, 105, 32, 118, 7899, 105, 32, 65, 73,
    32, 273, 432, 7907, 99, 46]"

record session =
  secret_api_key :: "pystr option"
  button_pressed :: bool

definition ai_section :: "library \<Rightarrow> session \<Rightarrow> row list \<Rightarrow> ratios \<Rightarrow> step list" where
  \<comment> \<open>lines 208 to 269\<close>
  "ai_section lib sess df_processed ratios =
     (case secret_api_key sess of
        None \<Rightarrow> [StError msg_no_api_key]
      | Some api_key \<Rightarrow>
          if api_key = [] then [StError msg_no_api_key]
          else if button_pressed sess then
            (case get_ai_analysis lib df_processed ratios api_key of
               (Some ai_result, steps) \<Rightarrow>
                 steps @ (if ai_result \<noteq> [] then [StReport ai_result] else [])
             | (None, steps) \<Rightarrow> steps)
          else [])"

definition run_uploaded :: "library \<Rightarrow> session \<Rightarrow> raw_row list \<Rightarrow> step list" where
  "run_uploaded lib sess df_raw =
     (case process_financial_data df_raw of
        (None, steps) \<Rightarrow> steps
      | (Some df_processed, steps) \<Rightarrow>
          (case calculate_financial_ratios df_processed of
             (ratios, ratio_steps) \<Rightarrow>
               steps @ [StSubheaderTable, StDataframe df_processed] @ ratio_steps
               @ [RatiosCalculated ratios, StDivider, StSubheaderAI]
               @ ai_section lib sess df_processed ratios))"

section \<open>Notions used by the properties\<close>

definition has_tong_tai_san :: "raw_row list \<Rightarrow> bool" where
  "has_tong_tai_san df_raw = list_ex (\<lambda>r. is_tong_tai_san (label_cell r)) df_raw"

definition has_tong_nguon_von :: "raw_row list \<Rightarrow> bool" where
  "has_tong_nguon_von df_raw = list_ex (\<lambda>r. is_tong_nguon_von (label_cell r)) df_raw"

definition has_tai_san_ngan_han :: "row list \<Rightarrow> bool" where
  "has_tai_san_ngan_han df = list_ex (\<lambda>r. is_tai_san_ngan_han (chi_tieu r)) df"

definition has_no_ngan_han :: "row list \<Rightarrow> bool" where
  "has_no_ngan_han df = list_ex (\<lambda>r. is_no_ngan_han (chi_tieu r)) df"

definition na_ratios :: ratios where
  "na_ratios = \<lparr>thanh_toan_hien_hanh_nam_truoc = PyStr na_str,
                 thanh_toan_hien_hanh_nam_sau = PyStr na_str\<rparr>"

text \<open>The prompts that a run sent to the endpoint, and the reports it rendered.\<close>

fun prompts_sent :: "step list \<Rightarrow> pystr list" where
  "prompts_sent [] = []"
| "prompts_sent (GenerateContent p # steps) = p # prompts_sent steps"
| "prompts_sent (s # steps) = prompts_sent steps"

fun reports_shown :: "step list \<Rightarrow> pystr list" where
  "reports_shown [] = []"
| "reports_shown (StReport t # steps) = t # reports_shown steps"
| "reports_shown (s # steps) = reports_shown steps"

section \<open>Example inputs\<close>

definition row_tong_tai_san :: raw_row where
  "row_tong_tai_san =
     \<lparr>label_cell = pat_tong_cong_tai_san, truoc_cell = Num 100, sau_cell = Num 150\<rparr>"

definition row_tong_nguon_von :: raw_row where
  "row_tong_nguon_von =
     \<lparr>label_cell = pat_tong_cong_nguon_von, truoc_cell = Num 100, sau_cell = Num 150\<rparr>"

definition ex_totals :: "raw_row list" where
  \<comment> \<open>a balance sheet of two lines: total assets and total capital, 100 then 150\<close>
  "ex_totals = [row_tong_tai_san, row_tong_nguon_von]"

definition ex_totals_processed :: "row list" where
  "ex_totals_processed =
     [\<lparr>chi_tieu = pat_tong_cong_tai_san, nam_truoc = 100, nam_sau = 150,
       tang_truong = Fin 50, ty_trong_nam_truoc = Fin 100, ty_trong_nam_sau = Fin 100\<rparr>,
      \<lparr>chi_tieu = pat_tong_cong_nguon_von, nam_truoc = 100, nam_sau = 150,
       tang_truong = Fin 50, ty_trong_nam_truoc = Fin 100, ty_trong_nam_sau = Fin 100\<rparr>]"

definition row_blank_tai_san :: raw_row where
  "row_blank_tai_san =
     \<lparr>label_cell = pat_tong_tai_san, truoc_cell = Blank, sau_cell = NonNumeric na_str\<rparr>"

definition row_zero_prior :: raw_row where
  "row_zero_prior =
     \<lparr>label_cell = pat_tong_nguon_von, truoc_cell = Num 0, sau_cell = Num 5000\<rparr>"

definition ex_blank :: "raw_row list" where
  \<comment> \<open>total assets with an empty cell and a text, total capital 0 then 5000\<close>
  "ex_blank = [row_blank_tai_san, row_zero_prior]"

definition ex_blank_processed :: "row list" where
  "ex_blank_processed =
     [\<lparr>chi_tieu = pat_tong_tai_san, nam_truoc = 0, nam_sau = 0,
       tang_truong = Fin 0, ty_trong_nam_truoc = Fin 0, ty_trong_nam_sau = Fin 0\<rparr>,
      \<lparr>chi_tieu = pat_tong_nguon_von, nam_truoc = 0, nam_sau = 5000,
       tang_truong = Fin (5 * 10 ^ 14), ty_trong_nam_truoc = Fin 0,
       ty_trong_nam_sau = Fin (5 * 10 ^ 14)\<rparr>]"

definition row_whole_tai_san :: raw_row where
  "row_whole_tai_san =
     \<lparr>label_cell = pat_tong_cong_tai_san, truoc_cell = Whole 100, sau_cell = Whole 150\<rparr>"

definition row_whole_nguon_von :: raw_row where
  "row_whole_nguon_von =
     \<lparr>label_cell = pat_tong_cong_nguon_von, truoc_cell = Whole 100, sau_cell = Whole 150\<rparr>"

definition row_whole_ngan_han :: raw_row where
  "row_whole_ngan_han =
     \<lparr>label_cell = pat_tai_san_ngan_han, truoc_cell = Whole 0, sau_cell = Whole 60\<rparr>"

definition ex_whole :: "raw_row list" where
  \<comment> \<open>a sheet of whole numbers: both columns are int64\<close>
  "ex_whole = [row_whole_tai_san, row_whole_nguon_von, row_whole_ngan_han]"

definition ex_whole_processed :: "row list" where
  "ex_whole_processed =
     [\<lparr>chi_tieu = pat_tong_cong_tai_san, nam_truoc = 100, nam_sau = 150,
       tang_truong = Fin 50, ty_trong_nam_truoc = Fin 100, ty_trong_nam_sau = Fin 100\<rparr>,
      \<lparr>chi_tieu = pat_tong_cong_nguon_von, nam_truoc = 100, nam_sau = 150,
       tang_truong = Fin 50, ty_trong_nam_truoc = Fin 100, ty_trong_nam_sau = Fin 100\<rparr>,
      \<lparr>chi_tieu = pat_tai_san_ngan_han, nam_truoc = 0, nam_sau = 60,
       tang_truong = Fin (6 * 10 ^ 12), ty_trong_nam_truoc = Fin 0,
       ty_trong_nam_sau = Fin 40\<rparr>]"

definition ex_no_assets :: "raw_row list" where
  "ex_no_assets = [row_tong_nguon_von]"




definition ex_lib :: library where
  \<comment> \<open>a library whose endpoint answers every prompt with the text \<open>ok\<close>\<close>
  "ex_lib =
     \<lparr>to_markdown = (\<lambda>rows. []), format_2f = (\<lambda>r. [48]),
      generate_content = (\<lambda>api_key prompt. Inr [111, 107])\<rparr>"

definition ex_lib_invalid :: library where
  \<comment> \<open>the endpoint refuses the key\<close>
  "ex_lib_invalid = ex_lib\<lparr>generate_content := (\<lambda>api_key prompt. Inl (InvalidArgument [52, 48, 48]))\<rparr>"

definition ex_lib_down :: library where
  \<comment> \<open>the endpoint fails in another way\<close>
  "ex_lib_down = ex_lib\<lparr>generate_content := (\<lambda>api_key prompt. Inl (OtherException [53, 48, 51]))\<rparr>"

definition ex_session :: session where
  "ex_session = \<lparr>secret_api_key = Some [107], button_pressed = True\<rparr>"

definition ex_numeric_ratios :: ratios where
  "ex_numeric_ratios = \<lparr>thanh_toan_hien_hanh_nam_truoc = PyFloat 2,
                         thanh_toan_hien_hanh_nam_sau = PyFloat 0\<rparr>"

definition ex_prompt :: pystr where
  \<comment> \<open>the prompt of \<open>ex_lib\<close>: an empty table, both ratios formatted as 0\<close>
  "ex_prompt =
     prompt_head @ [] @ prompt_ratio_truoc @ [48] @ prompt_ratio_sau @ [48] @ prompt_tail"

section \<open>Lemmas on the search and on the arithmetic\<close>

lemma filter_Nil_list_ex: "filter P xs = [] \<longleftrightarrow> \<not> list_ex P xs"
  by (simp add: filter_empty_conv list_ex_iff)

lemma find_Some_filter: "find P xs = Some a \<Longrightarrow> \<exists>ys. filter P xs = a # ys"
  by (induction xs) (auto split: if_splits)

lemma filter_Cons_find: "filter P xs = a # ys \<Longrightarrow> find P xs = Some a"
  by (induction xs) (auto split: if_splits)

lemma list_ex_filter: "list_ex P xs \<Longrightarrow> \<exists>b ys. filter P xs = b # ys"
  by (cases "filter P xs") (auto simp: filter_Nil_list_ex)

lemma find_Some_set: "find P xs = Some a \<Longrightarrow> a \<in> set xs"
  by (induction xs) (auto split: if_splits)

lemma filter_numeric_cols:
  "filter (\<lambda>r. P (nr_chi_tieu r)) (map (numeric_cols bt bs) df_raw)
     = map (numeric_cols bt bs) (filter (\<lambda>r. P (label_cell r)) df_raw)"
  by (induction df_raw) (auto simp: numeric_cols_def)

lemma entry_value_to_entry: "entry_value (to_entry b c) = coerce c"
  by (cases "(b, c)" rule: to_entry.cases) (simp_all add: coerce_def)

text \<open>The frame that is returned, row by row, from the dtypes of the two columns.\<close>

lemma process_found:
  assumes "find (\<lambda>r. is_tong_tai_san (label_cell r)) df_raw = Some a"
    and "has_tong_nguon_von df_raw"
  shows "process_financial_data df_raw =
     (Some (map (\<lambda>r. assemble (py_or (coerce (truoc_cell a)) epsilon)
                              (py_or (coerce (sau_cell a)) epsilon)
                              (numeric_cols (int64_col (map truoc_cell df_raw))
                                 (int64_col (map sau_cell df_raw)) r)) df_raw), [])"
proof -
  obtain ys where a: "filter (\<lambda>r. is_tong_tai_san (label_cell r)) df_raw = a # ys"
    using find_Some_filter [OF assms(1)] by blast
  obtain b zs where b: "filter (\<lambda>r. is_tong_nguon_von (label_cell r)) df_raw = b # zs"
    using list_ex_filter assms(2) unfolding has_tong_nguon_von_def by blast
  show ?thesis
    by (simp add: process_financial_data_def filter_numeric_cols a b numeric_cols_def comp_def
        entry_value_to_entry)
qed

lemma process_missing:
  assumes "\<not> has_tong_tai_san df_raw \<or> \<not> has_tong_nguon_von df_raw"
  shows "process_financial_data df_raw = (None, [StError msg_missing_totals])"
proof -
  have "filter (\<lambda>r. is_tong_tai_san (label_cell r)) df_raw = []
      \<or> filter (\<lambda>r. is_tong_nguon_von (label_cell r)) df_raw = []"
    using assms by (simp add: filter_Nil_list_ex has_tong_tai_san_def has_tong_nguon_von_def)
  then show ?thesis
    by (auto simp: process_financial_data_def filter_numeric_cols Let_def split: list.splits)
qed

lemma process_Some:
  assumes "process_financial_data df_raw = (Some df, steps)"
  shows "\<exists>a. find (\<lambda>r. is_tong_tai_san (label_cell r)) df_raw = Some a
           \<and> has_tong_nguon_von df_raw"
proof (rule ccontr)
  assume n: "\<not> ?thesis"
  have "\<not> has_tong_tai_san df_raw \<or> \<not> has_tong_nguon_von df_raw"
  proof (cases "has_tong_tai_san df_raw")
    case True
    then obtain a ys where "filter (\<lambda>r. is_tong_tai_san (label_cell r)) df_raw = a # ys"
      using list_ex_filter unfolding has_tong_tai_san_def by blast
    then have "find (\<lambda>r. is_tong_tai_san (label_cell r)) df_raw = Some a"
      by (rule filter_Cons_find)
    with n show ?thesis by blast
  next
    case False
    then show ?thesis by simp
  qed
  from process_missing [OF this] assms show False by simp
qed

lemma py_or_epsilon: "py_or x epsilon = (if x = 0 then 1 / 10 ^ 9 else x)"
  by (simp add: py_or_def epsilon_def)

lemma process_Some_rows:
  assumes "process_financial_data df_raw = (Some df, steps)"
  shows "\<exists>d_truoc d_sau. d_truoc \<noteq> 0 \<and> d_sau \<noteq> 0 \<and> steps = []
           \<and> df = map (\<lambda>r. assemble d_truoc d_sau
                              (numeric_cols (int64_col (map truoc_cell df_raw))
                                 (int64_col (map sau_cell df_raw)) r)) df_raw"
proof -
  obtain a where a: "find (\<lambda>r. is_tong_tai_san (label_cell r)) df_raw = Some a"
    and b: "has_tong_nguon_von df_raw"
    using process_Some [OF assms] by blast
  have "py_or (coerce (truoc_cell a)) epsilon \<noteq> 0" "py_or (coerce (sau_cell a)) epsilon \<noteq> 0"
    by (simp_all add: py_or_epsilon)
  then show ?thesis
    using assms unfolding process_found [OF a b] by blast
qed

text \<open>Floats within the range, and int64 without wrap-around.\<close>

lemma float_overflow_large: "10 ^ 30 < float_overflow"
  by (simp add: float_overflow_def)

lemma fl_Fin: "\<bar>x\<bar> < float_overflow \<Longrightarrow> fl x = Fin x"
  by (auto simp: fl_def)

lemma fl_small: "\<bar>x\<bar> \<le> 10 ^ 30 \<Longrightarrow> fl x = Fin x"
  using float_overflow_large by (intro fl_Fin) linarith

lemma fl_not_NaN: "fl x \<noteq> NaN"
  by (simp add: fl_def)

lemma abs_divide_bound:
  fixes x d :: real
  assumes "\<bar>x\<bar> \<le> A" and "1 / 10 ^ 9 \<le> \<bar>d\<bar>"
  shows "\<bar>x / d\<bar> \<le> A * 10 ^ 9"
proof -
  have d: "0 < \<bar>d\<bar>" "1 \<le> \<bar>d\<bar> * 10 ^ 9"
    using assms(2) by (auto simp: field_simps)
  have "\<bar>x\<bar> * 1 \<le> \<bar>x\<bar> * (\<bar>d\<bar> * 10 ^ 9)"
    using d(2) by (intro mult_left_mono) auto
  then have "\<bar>x\<bar> / \<bar>d\<bar> \<le> \<bar>x\<bar> * 10 ^ 9"
    using d(1) by (simp add: field_simps)
  also have "\<dots> \<le> A * 10 ^ 9"
    using assms(1) by simp
  finally show ?thesis by simp
qed

lemma np_div_Fin: "y \<noteq> 0 \<Longrightarrow> \<bar>x / y\<bar> \<le> 10 ^ 30 \<Longrightarrow> np_div (Fin x) y = Fin (x / y)"
  by (simp add: fl_small)

lemma abs_diff_le:
  fixes a b :: real
  assumes "\<bar>a\<bar> \<le> A" and "\<bar>b\<bar> \<le> A"
  shows "\<bar>a - b\<bar> \<le> 2 * A"
  using assms by linarith

lemma sint_times_100:
  fixes a :: int64
  assumes "\<bar>sint a\<bar> \<le> 10 ^ 16"
  shows "sint (100 * a) = 100 * sint a"
proof -
  have "sint (100 * a) = signed_take_bit 63 (sint (100 :: int64) * sint a)"
    by (simp add: sint_word_ariths)
  also have "sint (100 :: int64) = 100"
    by simp
  also have "signed_take_bit 63 (100 * sint a) = 100 * sint a"
    using assms by (intro signed_take_bit_int_eq_self) auto
  finally show ?thesis .
qed

lemma sint_minus:
  fixes a b :: int64
  assumes "\<bar>sint a\<bar> \<le> 10 ^ 16" and "\<bar>sint b\<bar> \<le> 10 ^ 16"
  shows "sint (a - b) = sint a - sint b"
proof -
  have "sint (a - b) = signed_take_bit 63 (sint a - sint b)"
    by (simp add: sint_word_ariths)
  also have "\<dots> = sint a - sint b"
    using assms by (intro signed_take_bit_int_eq_self) auto
  finally show ?thesis .
qed

lemma real_sint_bound:
  fixes a :: int64
  shows "\<bar>real_of_int (sint a)\<bar> \<le> 10 ^ 16 \<Longrightarrow> \<bar>sint a\<bar> \<le> 10 ^ 16"
proof -
  assume "\<bar>real_of_int (sint a)\<bar> \<le> 10 ^ 16"
  then have "real_of_int \<bar>sint a\<bar> \<le> real_of_int (10 ^ 16)"
    by simp
  then show ?thesis
    by (simp only: of_int_le_iff)
qed

lemma times_100_in_range:
  assumes "\<bar>entry_value e\<bar> \<le> 10 ^ 16"
  shows "times_100 e = Fin (100 * entry_value e)"
proof (cases e)
  case (I64 a)
  then have "\<bar>sint a\<bar> \<le> 10 ^ 16"
    using assms real_sint_bound by simp
  then show ?thesis
    using I64 by (simp add: sint_times_100)
next
  case (F64 r)
  then have "\<bar>100 * r\<bar> \<le> 10 ^ 30"
    using assms by simp
  then show ?thesis
    using F64 by (simp add: fl_small)
qed

lemma series_sub_in_range:
  assumes "\<bar>entry_value x\<bar> \<le> 10 ^ 16" and "\<bar>entry_value y\<bar> \<le> 10 ^ 16"
  shows "series_sub x y = Fin (entry_value x - entry_value y)"
proof -
  have "\<bar>entry_value x - entry_value y\<bar> \<le> 10 ^ 30"
    by (rule order_trans [OF abs_diff_le [OF assms]]) simp
  then have f: "fl (entry_value x - entry_value y) = Fin (entry_value x - entry_value y)"
    by (rule fl_small)
  show ?thesis
  proof (cases x)
    case (I64 a)
    note x = this
    show ?thesis
    proof (cases y)
      case (I64 b)
      then have "\<bar>sint a\<bar> \<le> 10 ^ 16" "\<bar>sint b\<bar> \<le> 10 ^ 16"
        using assms real_sint_bound x by simp_all
      then show ?thesis
        using x I64 by (simp add: sint_minus)
    next
      case (F64 r)
      then show ?thesis
        using x f by simp
    qed
  next
    case (F64 r)
    then show ?thesis
      using f by simp
  qed
qed

lemma share_pct_in_range:
  assumes "\<bar>entry_value e\<bar> \<le> 10 ^ 16" and "1 / 10 ^ 9 \<le> \<bar>d\<bar>"
  shows "share_pct e d = Fin (100 * entry_value e / d)"
proof -
  have d: "d \<noteq> 0"
    using assms(2) by auto
  have "\<bar>100 * entry_value e\<bar> \<le> 10 ^ 18"
    using assms(1) by simp
  from abs_divide_bound [OF this assms(2)]
  have "\<bar>100 * entry_value e / d\<bar> \<le> 10 ^ 30"
    by simp
  then show ?thesis
    using d by (simp add: share_pct_def times_100_in_range [OF assms(1)] fl_small)
qed


lemma growth_pct_in_range:
  assumes "\<bar>entry_value t\<bar> \<le> 10 ^ 16" and "\<bar>entry_value s\<bar> \<le> 10 ^ 16"
    and "entry_value t = 0 \<or> 1 / 10 ^ 9 \<le> \<bar>entry_value t\<bar>"
  shows "growth_pct t s
           = Fin (100 * ((entry_value s - entry_value t)
                  / (if entry_value t = 0 then 1 / 10 ^ 9 else entry_value t)))"
proof -
  let ?d = "if entry_value t = 0 then 1 / 10 ^ 9 else entry_value t"
  let ?x = "entry_value s - entry_value t"
  have d: "?d \<noteq> 0" "1 / 10 ^ 9 \<le> \<bar>?d\<bar>"
    using assms(3) by auto
  have x: "\<bar>?x\<bar> \<le> 2 * 10 ^ 16"
    by (rule abs_diff_le [OF assms(2,1)])
  define q where "q = ?x / ?d"
  have q: "\<bar>q\<bar> \<le> 2 * 10 ^ 16 * 10 ^ 9"
    unfolding q_def by (rule abs_divide_bound [OF x d(2)])
  have q1: "\<bar>q\<bar> \<le> 10 ^ 30"
    by (rule order_trans [OF q]) simp
  have "\<bar>q * 100\<bar> = \<bar>q\<bar> * 100"
    by (simp add: abs_mult)
  also have "\<dots> \<le> 2 * 10 ^ 16 * 10 ^ 9 * 100"
    using q by (intro mult_right_mono) auto
  also have "\<dots> \<le> 10 ^ 30"
    by simp
  finally have q2: "\<bar>q * 100\<bar> \<le> 10 ^ 30" .
  have "growth_pct t s = np_mul (np_div (Fin ?x) ?d) 100"
    by (simp add: growth_pct_def series_sub_in_range [OF assms(2,1)] replace_zero_def
        epsilon_def)
  also have "np_div (Fin ?x) ?d = Fin q"
    unfolding q_def by (rule np_div_Fin [OF d(1) q1 [unfolded q_def]])
  also have "np_mul (Fin q) 100 = Fin (q * 100)"
    using fl_small [OF q2] by simp
  finally show ?thesis
    unfolding q_def by (simp only: mult.commute)
qed

text \<open>The labels of the examples, searched by evaluation.\<close>

lemmas search_defs =
  is_tong_tai_san_def is_tong_nguon_von_def is_tai_san_ngan_han_def is_no_ngan_han_def
  str_contains_def ignorecase_literal_def py_lower_def
  pat_tong_cong_tai_san_def pat_tong_tai_san_def pat_tong_cong_nguon_von_def
  pat_tong_nguon_von_def pat_tai_san_ngan_han_def pat_no_ngan_han_def

lemma ex_labels_tong_tai_san:
  "is_tong_tai_san pat_tong_cong_tai_san" "is_tong_tai_san pat_tong_tai_san"
  "\<not> is_tong_tai_san pat_tong_cong_nguon_von" "\<not> is_tong_tai_san pat_tong_nguon_von"
  by (simp_all add: search_defs)

lemma ex_labels_tong_nguon_von:
  "is_tong_nguon_von pat_tong_cong_nguon_von" "is_tong_nguon_von pat_tong_nguon_von"
  "\<not> is_tong_nguon_von pat_tong_cong_tai_san" "\<not> is_tong_nguon_von pat_tong_tai_san"
  by (simp_all add: search_defs)

lemma ex_labels_tai_san_ngan_han:
  "is_tai_san_ngan_han pat_tai_san_ngan_han" "\<not> is_tai_san_ngan_han pat_no_ngan_han"
  "\<not> is_tai_san_ngan_han pat_tong_cong_tai_san"
  "\<not> is_tai_san_ngan_han pat_tong_cong_nguon_von"
  by (simp_all add: search_defs)

lemma ex_labels_no_ngan_han:
  "is_no_ngan_han pat_no_ngan_han" "\<not> is_no_ngan_han pat_tai_san_ngan_han"
  "\<not> is_no_ngan_han pat_tong_cong_tai_san" "\<not> is_no_ngan_han pat_tong_cong_nguon_von"
  by (simp_all add: search_defs)

lemmas ex_labels =
  ex_labels_tong_tai_san ex_labels_tong_nguon_von ex_labels_tai_san_ngan_han
  ex_labels_no_ngan_han

lemmas ex_raw_defs =
  ex_totals_def ex_blank_def ex_no_assets_def ex_whole_def row_tong_tai_san_def
  row_tong_nguon_von_def row_blank_tai_san_def row_zero_prior_def row_whole_tai_san_def
  row_whole_nguon_von_def row_whole_ngan_han_def

lemmas run_defs =
  process_financial_data_def numeric_cols_def int64_col_def coerce_def assemble_def py_or_def
  epsilon_def growth_pct_def share_pct_def replace_zero_def fl_small

lemma ex_totals_run:
  "process_financial_data ex_totals = (Some ex_totals_processed, [])"
  by (simp add: run_defs ex_raw_defs ex_totals_processed_def ex_labels)

lemma ex_blank_run:
  "process_financial_data ex_blank = (Some ex_blank_processed, [])"
  by (simp add: run_defs ex_raw_defs ex_blank_processed_def ex_labels)

lemma ex_whole_run:
  "process_financial_data ex_whole = (Some ex_whole_processed, [])"
  by (simp add: run_defs ex_raw_defs ex_whole_processed_def ex_labels)

section \<open>The arithmetic at its limits\<close>

text \<open>
  In a column of whole numbers the product by 100 of lines 71 and 72 wraps around: the
  share of 92233720368547760 in itself comes out near -100. So does the difference of
  line 49: from -9 * 10^18 to 9 * 10^18 the growth comes out near 4.96.
\<close>

lemma share_pct_wraps:
  "share_pct (I64 92233720368547760) 92233720368547760
     = Fin (- 9223372036854775616 / 92233720368547760)"
  by (simp add: share_pct_def fl_small)

lemma growth_pct_wraps:
  "growth_pct (I64 (- 9000000000000000000)) (I64 9000000000000000000)
     = Fin (446744073709551616 / 9000000000000000000 * 100)"
  by (simp add: growth_pct_def replace_zero_def epsilon_def fl_small)

text \<open>
  In a column of floats the same product and the quotient of line 49 overflow to an
  infinity.
\<close>

lemma share_pct_overflows: "share_pct (F64 (10 ^ 307)) 1 = PInf"
  by (simp add: share_pct_def fl_def float_overflow_def)

lemma growth_pct_overflows: "growth_pct (F64 0) (F64 (10 ^ 300)) = PInf"
  by (simp add: growth_pct_def replace_zero_def epsilon_def fl_def float_overflow_def)

section \<open>Composition percentages\<close>

lemma find_Some_list_ex: "find P xs = Some a \<Longrightarrow> list_ex P xs"
  by (induction xs) (auto split: if_splits)

lemma assemble_shares:
  "ty_trong_nam_truoc (assemble d_truoc d_sau (numeric_cols bt bs r))
     = share_pct (to_entry bt (truoc_cell r)) d_truoc"
  "ty_trong_nam_sau (assemble d_truoc d_sau (numeric_cols bt bs r))
     = share_pct (to_entry bs (sau_cell r)) d_sau"
  by (simp_all add: assemble_def numeric_cols_def)

lemma sum_shares_in_range:
  assumes "\<forall>r\<in>set rows. \<bar>coerce (f r)\<bar> \<le> 10 ^ 16" and "1 / 10 ^ 9 \<le> \<bar>d\<bar>"
  shows "np_sum (map (\<lambda>r. share_pct (to_entry b (f r)) d) rows)
           = Fin (100 * (\<Sum>r\<leftarrow>rows. coerce (f r)) / d)"
  using assms(1)
proof (induction rows)
  case Nil
  show ?case by simp
next
  case (Cons r rows)
  have "\<bar>entry_value (to_entry b (f r))\<bar> \<le> 10 ^ 16"
    using Cons.prems by (simp add: entry_value_to_entry)
  from share_pct_in_range [OF this assms(2)]
  have "share_pct (to_entry b (f r)) d = Fin (100 * coerce (f r) / d)"
    by (simp add: entry_value_to_entry)
  then show ?case
    using Cons by (simp add: add_divide_distrib distrib_left)
qed

text \<open>
  Claim C1, as stated, fails. On the balance sheet of two lines \<open>ex_totals\<close> both anchor
  rows are present, and the composition percentages of all rows add up to 200 in each
  period, not to 100: every row is divided by the total of assets, the two total rows
  included.
\<close>

theorem composition_sum_counterexample:
  "has_tong_tai_san ex_totals \<and> has_tong_nguon_von ex_totals
   \<and> process_financial_data ex_totals = (Some ex_totals_processed, [])
   \<and> np_sum (map ty_trong_nam_truoc ex_totals_processed) = Fin 200
   \<and> np_sum (map ty_trong_nam_sau ex_totals_processed) = Fin 200"
proof -
  have "has_tong_tai_san ex_totals" "has_tong_nguon_von ex_totals"
    by (simp_all add: has_tong_tai_san_def has_tong_nguon_von_def ex_raw_defs ex_labels)
  moreover have "np_sum (map ty_trong_nam_truoc ex_totals_processed) = Fin 200"
    "np_sum (map ty_trong_nam_sau ex_totals_processed) = Fin 200"
    by (simp_all add: ex_totals_processed_def)
  ultimately show ?thesis
    using ex_totals_run by simp
qed

text \<open>
  Claim C1, amended. When both anchor rows are present, the frame is returned, and in
  each period independently: if the first row matching the total of assets and the first
  row matching the total of capital hold the same value (so that it makes no difference
  which of the two totals divides a row), if no value of the period exceeds 10^16 in
  magnitude, and if that total is zero or at least \<open>1e-9\<close> in magnitude (so that no int64
  wraps around and no float overflows), then the composition percentages of all rows add
  up to 100 times the sum of the values of all rows divided by that total, or by \<open>1e-9\<close>
  when the total is zero. (So the sum is 100 exactly when the values of all rows add up
  to that divisor.)
\<close>

theorem composition_sum:
  assumes "find (\<lambda>r. is_tong_tai_san (label_cell r)) df_raw = Some a"
    and "find (\<lambda>r. is_tong_nguon_von (label_cell r)) df_raw = Some b"
  shows "\<exists>df. process_financial_data df_raw = (Some df, [])
     \<and> (coerce (truoc_cell a) = coerce (truoc_cell b)
          \<and> (\<forall>r\<in>set df_raw. \<bar>coerce (truoc_cell r)\<bar> \<le> 10 ^ 16)
          \<and> (coerce (truoc_cell a) = 0 \<or> 1 / 10 ^ 9 \<le> \<bar>coerce (truoc_cell a)\<bar>)
        \<longrightarrow> np_sum (map ty_trong_nam_truoc df)
              = Fin (100 * (\<Sum>r\<leftarrow>df_raw. coerce (truoc_cell r))
                     / (if coerce (truoc_cell a) = 0 then 1 / 10 ^ 9
                        else coerce (truoc_cell a))))
     \<and> (coerce (sau_cell a) = coerce (sau_cell b)
          \<and> (\<forall>r\<in>set df_raw. \<bar>coerce (sau_cell r)\<bar> \<le> 10 ^ 16)
          \<and> (coerce (sau_cell a) = 0 \<or> 1 / 10 ^ 9 \<le> \<bar>coerce (sau_cell a)\<bar>)
        \<longrightarrow> np_sum (map ty_trong_nam_sau df)
              = Fin (100 * (\<Sum>r\<leftarrow>df_raw. coerce (sau_cell r))
                     / (if coerce (sau_cell a) = 0 then 1 / 10 ^ 9
                        else coerce (sau_cell a))))"
proof -
  let ?d1 = "if coerce (truoc_cell a) = 0 then 1 / 10 ^ 9 else coerce (truoc_cell a)"
  let ?d2 = "if coerce (sau_cell a) = 0 then 1 / 10 ^ 9 else coerce (sau_cell a)"
  let ?bt = "int64_col (map truoc_cell df_raw)"
  let ?bs = "int64_col (map sau_cell df_raw)"
  let ?df = "map (\<lambda>r. assemble ?d1 ?d2 (numeric_cols ?bt ?bs r)) df_raw"
  have h: "has_tong_nguon_von df_raw"
    unfolding has_tong_nguon_von_def by (rule find_Some_list_ex [OF assms(2)])
  have p: "process_financial_data df_raw = (Some ?df, [])"
    unfolding process_found [OF assms(1) h] py_or_epsilon ..
  have t: "np_sum (map ty_trong_nam_truoc ?df)
             = Fin (100 * (\<Sum>r\<leftarrow>df_raw. coerce (truoc_cell r)) / ?d1)"
    if "\<forall>r\<in>set df_raw. \<bar>coerce (truoc_cell r)\<bar> \<le> 10 ^ 16"
      and "coerce (truoc_cell a) = 0 \<or> 1 / 10 ^ 9 \<le> \<bar>coerce (truoc_cell a)\<bar>"
  proof -
    have d: "1 / 10 ^ 9 \<le> \<bar>?d1\<bar>"
      using that(2) by auto
    have m: "map ty_trong_nam_truoc ?df
            = map (\<lambda>r. share_pct (to_entry ?bt (truoc_cell r)) ?d1) df_raw"
      by (simp add: assemble_shares)
    show ?thesis
      unfolding m by (rule sum_shares_in_range [OF that(1) d])
  qed
  have s: "np_sum (map ty_trong_nam_sau ?df)
             = Fin (100 * (\<Sum>r\<leftarrow>df_raw. coerce (sau_cell r)) / ?d2)"
    if "\<forall>r\<in>set df_raw. \<bar>coerce (sau_cell r)\<bar> \<le> 10 ^ 16"
      and "coerce (sau_cell a) = 0 \<or> 1 / 10 ^ 9 \<le> \<bar>coerce (sau_cell a)\<bar>"
  proof -
    have d: "1 / 10 ^ 9 \<le> \<bar>?d2\<bar>"
      using that(2) by auto
    have m: "map ty_trong_nam_sau ?df
            = map (\<lambda>r. share_pct (to_entry ?bs (sau_cell r)) ?d2) df_raw"
      by (simp add: assemble_shares)
    show ?thesis
      unfolding m by (rule sum_shares_in_range [OF that(1) d])
  qed
  from p t s show ?thesis
    by blast
qed

text \<open>
  The amended claim C1 on \<open>ex_whole\<close>, a sheet of whole numbers whose two totals agree:
  100 * 200 / 100 the year before, 100 * 360 / 150 the year after.
\<close>

theorem composition_sum_witness:
  "find (\<lambda>r. is_tong_tai_san (label_cell r)) ex_whole = Some row_whole_tai_san
   \<and> find (\<lambda>r. is_tong_nguon_von (label_cell r)) ex_whole = Some row_whole_nguon_von
   \<and> coerce (truoc_cell row_whole_tai_san) = coerce (truoc_cell row_whole_nguon_von)
   \<and> coerce (sau_cell row_whole_tai_san) = coerce (sau_cell row_whole_nguon_von)
   \<and> (\<exists>df. process_financial_data ex_whole = (Some df, [])
        \<and> np_sum (map ty_trong_nam_truoc df) = Fin 200
        \<and> np_sum (map ty_trong_nam_sau df) = Fin 240)"
proof -
  have f: "find (\<lambda>r. is_tong_tai_san (label_cell r)) ex_whole = Some row_whole_tai_san"
    by (simp add: ex_raw_defs ex_labels)
  have g: "find (\<lambda>r. is_tong_nguon_von (label_cell r)) ex_whole = Some row_whole_nguon_von"
    by (simp add: ex_raw_defs ex_labels)
  have e: "coerce (truoc_cell row_whole_tai_san) = coerce (truoc_cell row_whole_nguon_von)"
    "coerce (sau_cell row_whole_tai_san) = coerce (sau_cell row_whole_nguon_von)"
    by (simp_all add: ex_raw_defs coerce_def)
  have b: "\<forall>r\<in>set ex_whole. \<bar>coerce (truoc_cell r)\<bar> \<le> 10 ^ 16"
    "\<forall>r\<in>set ex_whole. \<bar>coerce (sau_cell r)\<bar> \<le> 10 ^ 16"
    by (simp_all add: ex_raw_defs coerce_def)
  have n: "1 / 10 ^ 9 \<le> \<bar>coerce (truoc_cell row_whole_tai_san)\<bar>"
    "1 / 10 ^ 9 \<le> \<bar>coerce (sau_cell row_whole_tai_san)\<bar>"
    by (simp_all add: ex_raw_defs coerce_def)
  from composition_sum [OF f g] obtain df where
    p: "process_financial_data ex_whole = (Some df, [])"
    and t: "np_sum (map ty_trong_nam_truoc df)
              = Fin (100 * (\<Sum>r\<leftarrow>ex_whole. coerce (truoc_cell r))
                     / (if coerce (truoc_cell row_whole_tai_san) = 0 then 1 / 10 ^ 9
                        else coerce (truoc_cell row_whole_tai_san)))"
    and s: "np_sum (map ty_trong_nam_sau df)
              = Fin (100 * (\<Sum>r\<leftarrow>ex_whole. coerce (sau_cell r))
                     / (if coerce (sau_cell row_whole_tai_san) = 0 then 1 / 10 ^ 9
                        else coerce (sau_cell row_whole_tai_san)))"
    using e b n by blast
  have "np_sum (map ty_trong_nam_truoc df) = Fin 200"
    unfolding t by (simp add: ex_raw_defs coerce_def)
  moreover have "np_sum (map ty_trong_nam_sau df) = Fin 240"
    unfolding s by (simp add: ex_raw_defs coerce_def)
  ultimately show ?thesis
    using f g e p by blast
qed



section \<open>Growth and coercion\<close>

lemma assemble_values:
  "nam_truoc (assemble d_truoc d_sau (numeric_cols bt bs r)) = coerce (truoc_cell r)"
  "nam_sau (assemble d_truoc d_sau (numeric_cols bt bs r)) = coerce (sau_cell r)"
  "tang_truong (assemble d_truoc d_sau (numeric_cols bt bs r))
     = growth_pct (to_entry bt (truoc_cell r)) (to_entry bs (sau_cell r))"
  by (simp_all add: assemble_def numeric_cols_def entry_value_to_entry)

text \<open>
  Claim C2, as stated, fails: the growth value is not (current - prior) / prior. The first
  row of \<open>ex_totals\<close> has prior 100 and current 150; its growth value is 50,
  and (150 - 100) / 100 is one half.
\<close>

theorem growth_value_counterexample:
  "process_financial_data ex_totals = (Some ex_totals_processed, [])
   \<and> truoc_cell (ex_totals ! 0) = Num 100 \<and> sau_cell (ex_totals ! 0) = Num 150
   \<and> tang_truong (ex_totals_processed ! 0) = Fin 50
   \<and> Fin 50 \<noteq> Fin ((150 - 100) / 100)"
  using ex_totals_run by (simp add: ex_raw_defs ex_totals_processed_def)

text \<open>
  Claim C2, amended. For every row of the input table whose two values do not exceed
  10^16 in magnitude and whose prior is zero or at least \<open>1e-9\<close> in magnitude (so that no
  int64 wraps around and no float overflows), the growth value that
  \<open>process_financial_data\<close> computes is 100 times (current - prior) / d, where d is prior,
  replaced by \<open>1e-9\<close> when prior is zero (in the divisor only); in particular, for a row
  with prior 0 and current 5000 the result is the finite positive number 5 * 10^14, not an
  infinity and not an error.
\<close>

theorem growth_value:
  assumes "process_financial_data df_raw = (Some df, steps)"
    and "i < length df_raw"
    and "\<bar>coerce (truoc_cell (df_raw ! i))\<bar> \<le> 10 ^ 16"
    and "\<bar>coerce (sau_cell (df_raw ! i))\<bar> \<le> 10 ^ 16"
    and "coerce (truoc_cell (df_raw ! i)) = 0
         \<or> 1 / 10 ^ 9 \<le> \<bar>coerce (truoc_cell (df_raw ! i))\<bar>"
  shows "tang_truong (df ! i)
           = Fin (100 * ((coerce (sau_cell (df_raw ! i)) - coerce (truoc_cell (df_raw ! i)))
                  / (if coerce (truoc_cell (df_raw ! i)) = 0 then 1 / 10 ^ 9
                     else coerce (truoc_cell (df_raw ! i)))))
       \<and> (coerce (truoc_cell (df_raw ! i)) = 0 \<and> coerce (sau_cell (df_raw ! i)) = 5000
            \<longrightarrow> tang_truong (df ! i) = Fin (5 * 10 ^ 14))"
proof -
  let ?bt = "int64_col (map truoc_cell df_raw)"
  let ?bs = "int64_col (map sau_cell df_raw)"
  obtain d_truoc d_sau where
    df: "df = map (\<lambda>r. assemble d_truoc d_sau (numeric_cols ?bt ?bs r)) df_raw"
    using process_Some_rows [OF assms(1)] by blast
  have g: "tang_truong (df ! i)
          = growth_pct (to_entry ?bt (truoc_cell (df_raw ! i)))
              (to_entry ?bs (sau_cell (df_raw ! i)))"
    using assms(2) by (simp add: df assemble_values)
  have "growth_pct (to_entry ?bt (truoc_cell (df_raw ! i)))
              (to_entry ?bs (sau_cell (df_raw ! i)))
          = Fin (100 * ((coerce (sau_cell (df_raw ! i)) - coerce (truoc_cell (df_raw ! i)))
                  / (if coerce (truoc_cell (df_raw ! i)) = 0 then 1 / 10 ^ 9
                     else coerce (truoc_cell (df_raw ! i)))))"
    using growth_pct_in_range [of "to_entry ?bt (truoc_cell (df_raw ! i))"
        "to_entry ?bs (sau_cell (df_raw ! i))"] assms(3-5)
    by (simp only: entry_value_to_entry)
  then show ?thesis
    unfolding g by simp
qed

text \<open>The amended claim C2 on the second row of \<open>ex_blank\<close>, prior 0 and current 5000.\<close>

theorem growth_value_witness:
  "process_financial_data ex_blank = (Some ex_blank_processed, [])
   \<and> (1::nat) < length ex_blank
   \<and> coerce (truoc_cell (ex_blank ! 1)) = 0 \<and> coerce (sau_cell (ex_blank ! 1)) = 5000
   \<and> tang_truong (ex_blank_processed ! 1) = Fin (5 * 10 ^ 14)"
proof -
  have l: "(1::nat) < length ex_blank"
    by (simp add: ex_raw_defs)
  have c: "coerce (truoc_cell (ex_blank ! 1)) = 0" "coerce (sau_cell (ex_blank ! 1)) = 5000"
    by (simp_all add: ex_raw_defs coerce_def)
  have b: "\<bar>coerce (truoc_cell (ex_blank ! 1))\<bar> \<le> 10 ^ 16"
    "\<bar>coerce (sau_cell (ex_blank ! 1))\<bar> \<le> 10 ^ 16"
    unfolding c by simp_all
  have z: "coerce (truoc_cell (ex_blank ! 1)) = 0
         \<or> 1 / 10 ^ 9 \<le> \<bar>coerce (truoc_cell (ex_blank ! 1))\<bar>"
    using c(1) by simp
  from growth_value [OF ex_blank_run l b z] c ex_blank_run l show ?thesis
    by simp
qed

text \<open>
  Claim C8. Every entry of the two value columns that is missing or not numeric is zero
  in the frame that \<open>process_financial_data\<close> returns, and the growth value and the
  composition percentage of its row are computed from that zero; a numeric entry keeps
  its value. With the prior coerced to zero the growth is the float quotient of the
  current value by \<open>1e-9\<close>, times 100, which is the current value times 10^11 as long as
  that is below the overflow threshold; with the current value coerced to zero it is 0
  or -100 (the prior value being a float, below the threshold).
\<close>

theorem coerce_to_zero:
  assumes "process_financial_data df_raw = (Some df, steps)"
    and "i < length df_raw"
  shows "((truoc_cell (df_raw ! i) = Blank \<or> (\<exists>s. truoc_cell (df_raw ! i) = NonNumeric s))
            \<longrightarrow> nam_truoc (df ! i) = 0
               \<and> tang_truong (df ! i)
                   = np_mul (np_div (fl (nam_sau (df ! i))) (1 / 10 ^ 9)) 100
               \<and> (\<bar>nam_sau (df ! i)\<bar> * 10 ^ 11 < float_overflow
                    \<longrightarrow> tang_truong (df ! i) = Fin (nam_sau (df ! i) * 10 ^ 11))
               \<and> ty_trong_nam_truoc (df ! i) = Fin 0)
       \<and> ((sau_cell (df_raw ! i) = Blank \<or> (\<exists>s. sau_cell (df_raw ! i) = NonNumeric s))
            \<longrightarrow> nam_sau (df ! i) = 0
               \<and> tang_truong (df ! i)
                   = np_mul (np_div (fl (- nam_truoc (df ! i)))
                       (if nam_truoc (df ! i) = 0 then 1 / 10 ^ 9 else nam_truoc (df ! i))) 100
               \<and> (\<bar>nam_truoc (df ! i)\<bar> < float_overflow
                    \<longrightarrow> tang_truong (df ! i)
                          = Fin (if nam_truoc (df ! i) = 0 then 0 else - 100))
               \<and> ty_trong_nam_sau (df ! i) = Fin 0)
       \<and> (\<forall>r. truoc_cell (df_raw ! i) = Num r \<longrightarrow> nam_truoc (df ! i) = r)
       \<and> (\<forall>r. sau_cell (df_raw ! i) = Num r \<longrightarrow> nam_sau (df ! i) = r)
       \<and> (\<forall>w. truoc_cell (df_raw ! i) = Whole w \<longrightarrow> nam_truoc (df ! i) = real_of_int (sint w))
       \<and> (\<forall>w. sau_cell (df_raw ! i) = Whole w \<longrightarrow> nam_sau (df ! i) = real_of_int (sint w))"
proof -
  let ?bt = "int64_col (map truoc_cell df_raw)"
  let ?bs = "int64_col (map sau_cell df_raw)"
  let ?t = "truoc_cell (df_raw ! i)"
  let ?s = "sau_cell (df_raw ! i)"
  obtain d_truoc d_sau where d: "d_truoc \<noteq> 0" "d_sau \<noteq> 0"
    and df: "df = map (\<lambda>r. assemble d_truoc d_sau (numeric_cols ?bt ?bs r)) df_raw"
    using process_Some_rows [OF assms(1)] by blast
  have r: "df ! i = assemble d_truoc d_sau (numeric_cols ?bt ?bs (df_raw ! i))"
    using assms(2) by (simp add: df)
  have v: "nam_truoc (df ! i) = coerce ?t" "nam_sau (df ! i) = coerce ?s"
    and g: "tang_truong (df ! i) = growth_pct (to_entry ?bt ?t) (to_entry ?bs ?s)"
    and st: "ty_trong_nam_truoc (df ! i) = share_pct (to_entry ?bt ?t) d_truoc"
    and ss: "ty_trong_nam_sau (df ! i) = share_pct (to_entry ?bs ?s) d_sau"
    unfolding r by (simp_all add: assemble_values assemble_shares)
  have zero_share: "share_pct (F64 0) x = Fin 0" if "x \<noteq> 0" for x
    using that by (simp add: share_pct_def fl_small)
  have 1: "nam_truoc (df ! i) = 0
         \<and> tang_truong (df ! i) = np_mul (np_div (fl (nam_sau (df ! i))) (1 / 10 ^ 9)) 100
         \<and> (\<bar>nam_sau (df ! i)\<bar> * 10 ^ 11 < float_overflow
              \<longrightarrow> tang_truong (df ! i) = Fin (nam_sau (df ! i) * 10 ^ 11))
         \<and> ty_trong_nam_truoc (df ! i) = Fin 0"
    if c: "?t = Blank \<or> (\<exists>s. ?t = NonNumeric s)"
  proof -
    have e: "to_entry ?bt ?t = F64 0"
      using c by (cases ?bt) (auto simp: coerce_def)
    have sub: "series_sub x (F64 0) = fl (entry_value x)" for x
      by (cases x) simp_all
    have gr: "tang_truong (df ! i) = np_mul (np_div (fl (coerce ?s)) (1 / 10 ^ 9)) 100"
      unfolding g e
      by (simp add: growth_pct_def sub replace_zero_def epsilon_def entry_value_to_entry)
    have k: "np_mul (np_div (fl x) (1 / 10 ^ 9)) 100 = Fin (x * 10 ^ 11)"
      if "\<bar>x\<bar> * 10 ^ 11 < float_overflow" for x :: real
    proof -
      have a: "\<bar>x\<bar> \<le> \<bar>x\<bar> * 10 ^ 11" "\<bar>x\<bar> * 10 ^ 9 \<le> \<bar>x\<bar> * 10 ^ 11"
        by (simp_all add: mult_le_cancel_left1 mult_left_mono)
      have "fl x = Fin x"
        using a(1) that by (intro fl_Fin) linarith
      moreover have "fl (x * 10 ^ 9) = Fin (x * 10 ^ 9)"
        using a(2) that by (intro fl_Fin) (simp add: abs_mult)
      moreover have "fl (x * 10 ^ 9 * 100) = Fin (x * 10 ^ 11)"
      proof -
        have "x * 10 ^ 9 * 100 = x * 10 ^ 11"
          by simp
        moreover have "fl (x * 10 ^ 11) = Fin (x * 10 ^ 11)"
          using that by (intro fl_Fin) (simp add: abs_mult)
        ultimately show ?thesis
          by (simp only:)
      qed
      ultimately show ?thesis
        by simp
    qed
    have n: "nam_truoc (df ! i) = 0"
      using c by (auto simp: v(1) coerce_def)
    have sh: "ty_trong_nam_truoc (df ! i) = Fin 0"
      unfolding st e by (rule zero_share [OF d(1)])
    have gr': "tang_truong (df ! i) = np_mul (np_div (fl (nam_sau (df ! i))) (1 / 10 ^ 9)) 100"
      unfolding v(2) by (rule gr)
    have "\<bar>nam_sau (df ! i)\<bar> * 10 ^ 11 < float_overflow
            \<longrightarrow> tang_truong (df ! i) = Fin (nam_sau (df ! i) * 10 ^ 11)"
      unfolding gr' using k by blast
    with n gr' sh show ?thesis
      by blast
  qed
  have 2: "nam_sau (df ! i) = 0
         \<and> tang_truong (df ! i)
             = np_mul (np_div (fl (- nam_truoc (df ! i)))
                 (if nam_truoc (df ! i) = 0 then 1 / 10 ^ 9 else nam_truoc (df ! i))) 100
         \<and> (\<bar>nam_truoc (df ! i)\<bar> < float_overflow
              \<longrightarrow> tang_truong (df ! i) = Fin (if nam_truoc (df ! i) = 0 then 0 else - 100))
         \<and> ty_trong_nam_sau (df ! i) = Fin 0"
    if c: "?s = Blank \<or> (\<exists>s. ?s = NonNumeric s)"
  proof -
    have e: "to_entry ?bs ?s = F64 0"
      using c by (cases ?bs) (auto simp: coerce_def)
    have sub: "series_sub (F64 0) (to_entry ?bt ?t) = fl (- coerce ?t)"
      by (simp add: entry_value_to_entry)
    have gr: "tang_truong (df ! i)
                = np_mul (np_div (fl (- coerce ?t))
                    (if coerce ?t = 0 then 1 / 10 ^ 9 else coerce ?t)) 100"
      unfolding g e
      by (simp add: growth_pct_def sub replace_zero_def epsilon_def entry_value_to_entry)
    have k: "np_mul (np_div (fl (- x)) (if x = 0 then 1 / 10 ^ 9 else x)) 100
            = Fin (if x = 0 then 0 else - 100)"
      if "\<bar>x\<bar> < float_overflow" for x :: real
    proof -
      have "fl (- x) = Fin (- x)"
        using that by (intro fl_Fin) simp
      then show ?thesis
        by (simp add: fl_small)
    qed
    have n: "nam_sau (df ! i) = 0"
      using c by (auto simp: v(2) coerce_def)
    have sh: "ty_trong_nam_sau (df ! i) = Fin 0"
      unfolding ss e by (rule zero_share [OF d(2)])
    have gr': "tang_truong (df ! i)
                 = np_mul (np_div (fl (- nam_truoc (df ! i)))
                     (if nam_truoc (df ! i) = 0 then 1 / 10 ^ 9 else nam_truoc (df ! i))) 100"
      unfolding v(1) by (rule gr)
    have "\<bar>nam_truoc (df ! i)\<bar> < float_overflow
            \<longrightarrow> tang_truong (df ! i) = Fin (if nam_truoc (df ! i) = 0 then 0 else - 100)"
      unfolding gr' using k by blast
    with n gr' sh show ?thesis
      by blast
  qed
  have 3: "nam_truoc (df ! i) = r" if "?t = Num r" for r
    using that by (simp add: v coerce_def)
  have 4: "nam_sau (df ! i) = r" if "?s = Num r" for r
    using that by (simp add: v coerce_def)
  have 5: "nam_truoc (df ! i) = real_of_int (sint w)" if "?t = Whole w" for w
    using that by (simp add: v coerce_def)
  have 6: "nam_sau (df ! i) = real_of_int (sint w)" if "?s = Whole w" for w
    using that by (simp add: v coerce_def)
  from 1 2 3 4 5 6 show ?thesis
    by blast
qed

text \<open>Claim C8 on the first row of \<open>ex_blank\<close>: an empty cell and the text N/A.\<close>

theorem coerce_to_zero_witness:
  "process_financial_data ex_blank = (Some ex_blank_processed, [])
   \<and> (0::nat) < length ex_blank
   \<and> truoc_cell (ex_blank ! 0) = Blank \<and> sau_cell (ex_blank ! 0) = NonNumeric na_str
   \<and> nam_truoc (ex_blank_processed ! 0) = 0
   \<and> nam_sau (ex_blank_processed ! 0) = 0
   \<and> ty_trong_nam_truoc (ex_blank_processed ! 0) = Fin 0
   \<and> ty_trong_nam_sau (ex_blank_processed ! 0) = Fin 0"
proof -
  have l: "(0::nat) < length ex_blank"
    by (simp add: ex_raw_defs)
  have c: "truoc_cell (ex_blank ! 0) = Blank" "sau_cell (ex_blank ! 0) = NonNumeric na_str"
    by (simp_all add: ex_raw_defs)
  from coerce_to_zero [OF ex_blank_run l] c ex_blank_run l show ?thesis
    by simp
qed

section \<open>Missing rows\<close>

lemma calculate_missing:
  assumes "\<not> has_tai_san_ngan_han df \<or> \<not> has_no_ngan_han df"
  shows "calculate_financial_ratios df = (na_ratios, [StWarning msg_missing_short_term])"
proof -
  have "filter (\<lambda>r. is_tai_san_ngan_han (chi_tieu r)) df = []
      \<or> filter (\<lambda>r. is_no_ngan_han (chi_tieu r)) df = []"
    using assms by (simp add: filter_Nil_list_ex has_tai_san_ngan_han_def has_no_ngan_han_def)
  then show ?thesis
    by (auto simp: calculate_financial_ratios_def na_ratios_def Let_def split: list.splits)
qed

lemma get_ai_analysis_na:
  "get_ai_analysis lib df na_ratios api_key
     = (None, [GenaiConfigure api_key, StError (msg_gemini_prefix @ value_error_text)])"
  by (simp add: get_ai_analysis_def build_prompt_def py_format_def na_ratios_def)

lemma ex_totals_processed_short_term:
  "\<not> has_tai_san_ngan_han ex_totals_processed" "\<not> has_no_ngan_han ex_totals_processed"
  by (simp_all add: has_tai_san_ngan_han_def has_no_ngan_han_def ex_totals_processed_def
      ex_labels)

text \<open>
  Claim C3. When no label matches the total of assets, or none matches the total of
  capital, \<open>process_financial_data\<close> returns \<open>None\<close> and shows the error of line 59, and
  that error is all the run does: no table, no ratios, no call of the endpoint, no report.
\<close>

theorem missing_totals_aborts:
  assumes "\<not> has_tong_tai_san df_raw \<or> \<not> has_tong_nguon_von df_raw"
  shows "process_financial_data df_raw = (None, [StError msg_missing_totals])
       \<and> run_uploaded lib sess df_raw = [StError msg_missing_totals]"
  by (simp add: run_uploaded_def process_missing [OF assms])

text \<open>Claim C3 on \<open>ex_no_assets\<close>, a table with the total of capital only.\<close>

theorem missing_totals_aborts_witness:
  "\<not> has_tong_tai_san ex_no_assets
   \<and> process_financial_data ex_no_assets = (None, [StError msg_missing_totals])
   \<and> run_uploaded ex_lib ex_session ex_no_assets = [StError msg_missing_totals]"
proof -
  have h: "\<not> has_tong_tai_san ex_no_assets"
    by (simp add: has_tong_tai_san_def ex_raw_defs ex_labels)
  then have "\<not> has_tong_tai_san ex_no_assets \<or> \<not> has_tong_nguon_von ex_no_assets"
    by simp
  from missing_totals_aborts [OF this, of ex_lib ex_session] h show ?thesis
    by simp
qed

text \<open>
  Claim C4. When no label of the processed frame matches the short-term assets, or none
  matches the short-term liabilities, \<open>calculate_financial_ratios\<close> returns the text N/A
  for both periods and shows the warning of line 92; the run is not aborted: after the
  warning it goes on with the divider, the heading and the AI section.
\<close>

theorem missing_short_term_placeholders:
  assumes "\<not> has_tai_san_ngan_han df \<or> \<not> has_no_ngan_han df"
  shows "calculate_financial_ratios df
           = (\<lparr>thanh_toan_hien_hanh_nam_truoc = PyStr na_str,
                thanh_toan_hien_hanh_nam_sau = PyStr na_str\<rparr>,
              [StWarning msg_missing_short_term])
       \<and> (process_financial_data df_raw = (Some df, steps)
            \<longrightarrow> run_uploaded lib sess df_raw
                  = [StSubheaderTable, StDataframe df, StWarning msg_missing_short_term,
                     RatiosCalculated na_ratios, StDivider, StSubheaderAI]
                    @ ai_section lib sess df na_ratios)"
proof -
  have c: "calculate_financial_ratios df = (na_ratios, [StWarning msg_missing_short_term])"
    by (rule calculate_missing [OF assms])
  have "steps = []" if "process_financial_data df_raw = (Some df, steps)"
    using process_Some_rows [OF that] by blast
  then show ?thesis
    using c by (auto simp: run_uploaded_def na_ratios_def)
qed

text \<open>
  Claim C4 on \<open>ex_totals\<close>, whose frame has neither short-term row: the run goes on
  into the AI section.
\<close>

theorem missing_short_term_placeholders_witness:
  "\<not> has_tai_san_ngan_han ex_totals_processed
   \<and> process_financial_data ex_totals = (Some ex_totals_processed, [])
   \<and> calculate_financial_ratios ex_totals_processed
       = (\<lparr>thanh_toan_hien_hanh_nam_truoc = PyStr [78, 47, 65],
            thanh_toan_hien_hanh_nam_sau = PyStr [78, 47, 65]\<rparr>,
          [StWarning msg_missing_short_term])
   \<and> run_uploaded ex_lib ex_session ex_totals
       = [StSubheaderTable, StDataframe ex_totals_processed, StWarning msg_missing_short_term,
          RatiosCalculated na_ratios, StDivider, StSubheaderAI,
          GenaiConfigure [107], StError (msg_gemini_prefix @ value_error_text)]"
proof -
  have h: "\<not> has_tai_san_ngan_han ex_totals_processed"
    by (rule ex_totals_processed_short_term)
  then have "\<not> has_tai_san_ngan_han ex_totals_processed \<or> \<not> has_no_ngan_han ex_totals_processed"
    by simp
  from missing_short_term_placeholders [OF this, of ex_totals "[]" ex_lib ex_session]
    h ex_totals_run
  show ?thesis
    by (simp add: ai_section_def ex_session_def get_ai_analysis_na na_str_def)
qed

section \<open>The current ratio\<close>



section \<open>The request to the endpoint\<close>

lemma prompts_sent_append: "prompts_sent (xs @ ys) = prompts_sent xs @ prompts_sent ys"
  by (induction xs rule: prompts_sent.induct) auto

lemma reports_shown_append: "reports_shown (xs @ ys) = reports_shown xs @ reports_shown ys"
  by (induction xs rule: reports_shown.induct) auto

lemma build_prompt_Inl:
  "build_prompt lib df r = Inl e \<Longrightarrow> e = ValueError value_error_text"
  by (auto simp: build_prompt_def py_format_def split: pyval.splits sum.splits)

lemma build_prompt_generate_content:
  "build_prompt (lib\<lparr>generate_content := g\<rparr>) df r = build_prompt lib df r"
  by (auto simp: build_prompt_def py_format_def split: pyval.splits sum.splits)

lemma prompts_sent_get_ai_analysis:
  "prompts_sent (snd (get_ai_analysis lib df r k))
     = (case build_prompt lib df r of Inl e \<Rightarrow> [] | Inr p \<Rightarrow> [p])"
proof (cases "build_prompt lib df r")
  case (Inl e)
  then have "e = ValueError value_error_text"
    by (rule build_prompt_Inl)
  with Inl show ?thesis
    by (simp add: get_ai_analysis_def)
next
  case (Inr p)
  show ?thesis
  proof (cases "generate_content lib k p")
    case (Inl e)
    then show ?thesis
      using Inr by (cases e) (simp_all add: get_ai_analysis_def)
  next
    case (Inr t)
    then show ?thesis
      using \<open>build_prompt lib df r = Inr p\<close> by (simp add: get_ai_analysis_def)
  qed
qed

lemma ex_build_prompt:
  "build_prompt ex_lib ex_totals_processed ex_numeric_ratios = Inr ex_prompt"
  "build_prompt ex_lib_invalid ex_totals_processed ex_numeric_ratios = Inr ex_prompt"
  "build_prompt ex_lib_down ex_totals_processed ex_numeric_ratios = Inr ex_prompt"
  by (simp_all add: build_prompt_def py_format_def ex_lib_def ex_lib_invalid_def ex_lib_down_def
      ex_numeric_ratios_def ex_prompt_def)

text \<open>
  Claim C6. When the endpoint raises \<open>InvalidArgument\<close>, \<open>get_ai_analysis\<close> shows the
  message of line 151 and returns \<open>None\<close>; on every other failure, of the endpoint or of
  the construction of the prompt, it shows the message of line 154 with the text of the
  exception and returns \<open>None\<close>. The two messages differ whatever that text is, and no
  call sends more than one request.
\<close>

theorem ai_failure_messages:
  "(build_prompt lib df r = Inr p \<and> generate_content lib k p = Inl (InvalidArgument s)
      \<longrightarrow> get_ai_analysis lib df r k
            = (None, [GenaiConfigure k, GenerateContent p, StError msg_invalid_key]))
   \<and> (build_prompt lib df r = Inr p \<and> generate_content lib k p = Inl e
        \<and> (\<forall>s. e \<noteq> InvalidArgument s)
      \<longrightarrow> get_ai_analysis lib df r k
            = (None, [GenaiConfigure k, GenerateContent p,
                      StError (msg_gemini_prefix @ exn_text e)]))
   \<and> (build_prompt lib df r = Inl e
      \<longrightarrow> get_ai_analysis lib df r k
            = (None, [GenaiConfigure k, StError (msg_gemini_prefix @ exn_text e)]))
   \<and> msg_invalid_key \<noteq> msg_gemini_prefix @ t
   \<and> length (prompts_sent (snd (get_ai_analysis lib df r k))) \<le> 1"
proof -
  have 1: "get_ai_analysis lib df r k
            = (None, [GenaiConfigure k, GenerateContent p, StError msg_invalid_key])"
    if "build_prompt lib df r = Inr p" "generate_content lib k p = Inl (InvalidArgument s)"
    using that by (simp add: get_ai_analysis_def)
  have 2: "get_ai_analysis lib df r k
            = (None, [GenaiConfigure k, GenerateContent p,
                      StError (msg_gemini_prefix @ exn_text e)])"
    if "build_prompt lib df r = Inr p" "generate_content lib k p = Inl e"
      "\<forall>s. e \<noteq> InvalidArgument s"
    using that by (cases e) (simp_all add: get_ai_analysis_def)
  have 3: "get_ai_analysis lib df r k
            = (None, [GenaiConfigure k, StError (msg_gemini_prefix @ exn_text e)])"
    if "build_prompt lib df r = Inl e"
    using that build_prompt_Inl [OF that] by (simp add: get_ai_analysis_def)
  have 4: "msg_invalid_key \<noteq> msg_gemini_prefix @ t"
    by (simp add: msg_invalid_key_def msg_gemini_prefix_def)
  have 5: "length (prompts_sent (snd (get_ai_analysis lib df r k))) \<le> 1"
    by (simp add: prompts_sent_get_ai_analysis split: sum.splits)
  from 1 2 3 4 5 show ?thesis by blast
qed

text \<open>
  Claim C6 on three calls: a refused key, an endpoint that is down, and ratios that
  cannot be formatted.
\<close>

theorem ai_failure_messages_witness:
  "get_ai_analysis ex_lib_invalid ex_totals_processed ex_numeric_ratios [107]
     = (None, [GenaiConfigure [107], GenerateContent ex_prompt, StError msg_invalid_key])
   \<and> get_ai_analysis ex_lib_down ex_totals_processed ex_numeric_ratios [107]
     = (None, [GenaiConfigure [107], GenerateContent ex_prompt,
               StError (msg_gemini_prefix @ [53, 48, 51])])
   \<and> get_ai_analysis ex_lib ex_totals_processed na_ratios [107]
     = (None, [GenaiConfigure [107], StError (msg_gemini_prefix @ value_error_text)])"
proof -
  have a: "generate_content ex_lib_invalid [107] ex_prompt = Inl (InvalidArgument [52, 48, 48])"
    by (simp add: ex_lib_invalid_def)
  have b: "generate_content ex_lib_down [107] ex_prompt = Inl (OtherException [53, 48, 51])"
    by (simp add: ex_lib_down_def)
  have c: "build_prompt ex_lib ex_totals_processed na_ratios = Inl (ValueError value_error_text)"
    by (simp add: build_prompt_def py_format_def na_ratios_def)
  from ai_failure_messages
      [of ex_lib_invalid ex_totals_processed ex_numeric_ratios ex_prompt "[107]" "[52, 48, 48]"]
    ex_build_prompt(2) a
  have 1: "get_ai_analysis ex_lib_invalid ex_totals_processed ex_numeric_ratios [107]
     = (None, [GenaiConfigure [107], GenerateContent ex_prompt, StError msg_invalid_key])"
    by blast
  from ai_failure_messages
      [of ex_lib_down ex_totals_processed ex_numeric_ratios ex_prompt "[107]" _
          "OtherException [53, 48, 51]"]
    ex_build_prompt(3) b
  have 2: "get_ai_analysis ex_lib_down ex_totals_processed ex_numeric_ratios [107]
     = (None, [GenaiConfigure [107], GenerateContent ex_prompt,
               StError (msg_gemini_prefix @ [53, 48, 51])])"
    by simp
  from ai_failure_messages
      [of ex_lib ex_totals_processed na_ratios _ "[107]" _ "ValueError value_error_text"] c
  have 3: "get_ai_analysis ex_lib ex_totals_processed na_ratios [107]
     = (None, [GenaiConfigure [107], StError (msg_gemini_prefix @ value_error_text)])"
    by simp
  from 1 2 3 show ?thesis by blast
qed

text \<open>
  Claim C7. The prompt that \<open>get_ai_analysis\<close> sends is a function of the frame and of
  the two ratios: two calls on the same frame and ratios send the same prompt, whatever
  the keys and whatever the endpoint answers; for numeric ratios it is the fixed text
  with the table and the two formatted ratios at their places.
\<close>

theorem prompt_deterministic:
  "prompts_sent (snd (get_ai_analysis (lib\<lparr>generate_content := gen_a\<rparr>) df r key_a))
     = prompts_sent (snd (get_ai_analysis (lib\<lparr>generate_content := gen_b\<rparr>) df r key_b))
   \<and> prompts_sent (snd (get_ai_analysis lib df
         \<lparr>thanh_toan_hien_hanh_nam_truoc = PyFloat x,
          thanh_toan_hien_hanh_nam_sau = PyFloat y\<rparr> key_a))
     = [prompt_head @ to_markdown lib (map selected_columns df) @ prompt_ratio_truoc
        @ format_2f lib x @ prompt_ratio_sau @ format_2f lib y @ prompt_tail]"
  by (simp add: prompts_sent_get_ai_analysis build_prompt_generate_content)
    (simp add: build_prompt_def py_format_def)

text \<open>Claim C7 on two calls with different keys and different failures of the endpoint.\<close>

theorem prompt_deterministic_witness:
  "prompts_sent (snd (get_ai_analysis ex_lib_invalid ex_totals_processed ex_numeric_ratios [107]))
     = prompts_sent (snd (get_ai_analysis ex_lib_down ex_totals_processed ex_numeric_ratios [108]))
   \<and> prompts_sent (snd (get_ai_analysis ex_lib ex_totals_processed ex_numeric_ratios [107]))
     = [ex_prompt]"
  using prompt_deterministic [where lib = ex_lib and df = ex_totals_processed
      and r = ex_numeric_ratios and x = 2 and y = 0 and key_a = "[107]" and key_b = "[108]"
      and gen_a = "\<lambda>api_key prompt. Inl (InvalidArgument [52, 48, 48])"
      and gen_b = "\<lambda>api_key prompt. Inl (OtherException [53, 48, 51])"]
  by (simp add: ex_lib_invalid_def ex_lib_down_def ex_numeric_ratios_def ex_prompt_def
      ex_totals_processed_def ex_lib_def)

text \<open>
  Claim C9. When a short-term row is missing, \<open>calculate_financial_ratios\<close> returns the
  text N/A twice, and every call of \<open>get_ai_analysis\<close> with these ratios fails before the
  endpoint is contacted: the format \<open>.2f\<close> raises on a text, the handler of line 153 shows
  the message of line 154, and \<open>None\<close> is returned. So a run on a table whose frame lacks
  a short-term row sends no prompt and renders no report.
\<close>

theorem na_ratios_no_narrative:
  assumes "\<not> has_tai_san_ngan_han df \<or> \<not> has_no_ngan_han df"
  shows "fst (calculate_financial_ratios df)
           = \<lparr>thanh_toan_hien_hanh_nam_truoc = PyStr na_str,
              thanh_toan_hien_hanh_nam_sau = PyStr na_str\<rparr>
       \<and> get_ai_analysis lib df (fst (calculate_financial_ratios df)) api_key
           = (None, [GenaiConfigure api_key, StError (msg_gemini_prefix @ value_error_text)])
       \<and> (process_financial_data df_raw = (Some df, steps)
            \<longrightarrow> prompts_sent (run_uploaded lib sess df_raw) = []
               \<and> reports_shown (run_uploaded lib sess df_raw) = [])"
proof -
  have c: "calculate_financial_ratios df = (na_ratios, [StWarning msg_missing_short_term])"
    by (rule calculate_missing [OF assms])
  have a: "prompts_sent (ai_section lib sess df na_ratios) = []
         \<and> reports_shown (ai_section lib sess df na_ratios) = []"
    by (simp add: ai_section_def get_ai_analysis_na split: option.splits)
  have "prompts_sent (run_uploaded lib sess df_raw) = []
      \<and> reports_shown (run_uploaded lib sess df_raw) = []"
    if "process_financial_data df_raw = (Some df, steps)"
  proof -
    have "steps = []"
      using process_Some_rows [OF that] by blast
    then show ?thesis
      using a by (simp add: run_uploaded_def that c prompts_sent_append reports_shown_append)
  qed
  then show ?thesis
    using c by (simp add: get_ai_analysis_na) (simp add: na_ratios_def)
qed

text \<open>Claim C9 on \<open>ex_totals\<close>, with the key set and the button pressed.\<close>

theorem na_ratios_no_narrative_witness:
  "\<not> has_no_ngan_han ex_totals_processed
   \<and> process_financial_data ex_totals = (Some ex_totals_processed, [])
   \<and> get_ai_analysis ex_lib ex_totals_processed
        (fst (calculate_financial_ratios ex_totals_processed)) [107]
       = (None, [GenaiConfigure [107], StError (msg_gemini_prefix @ value_error_text)])
   \<and> prompts_sent (run_uploaded ex_lib ex_session ex_totals) = []
   \<and> reports_shown (run_uploaded ex_lib ex_session ex_totals) = []"
proof -
  have h: "\<not> has_no_ngan_han ex_totals_processed"
    by (rule ex_totals_processed_short_term)
  then have "\<not> has_tai_san_ngan_han ex_totals_processed \<or> \<not> has_no_ngan_han ex_totals_processed"
    by simp
  from na_ratios_no_narrative [OF this, of ex_lib "[107]" ex_totals "[]" ex_session]
    h ex_totals_run
  show ?thesis
    by blast
qed

end
